theory Spec2Isabelle
  imports Main "HOL-Library.Sublist"
begin

section \<open>Strings\<close>

text \<open>
  Python strings are modelled as \<^typ>\<open>string\<close>, one \<^typ>\<open>char\<close> per character.
\<close>

definition newline :: char where
  "newline = CHR 0x0A"

text \<open>\<^verbatim>\<open>sub in s\<close>: \<open>sub\<close> occurs in \<open>s\<close> as a contiguous run.\<close>

fun contains :: "string \<Rightarrow> string \<Rightarrow> bool" where
  "contains sub [] = (sub = [])"
| "contains sub (c # cs) = (prefix sub (c # cs) \<or> contains sub cs)"

text \<open>\<^verbatim>\<open>sep.join(xs)\<close>.\<close>

fun join :: "string \<Rightarrow> string list \<Rightarrow> string" where
  "join sep [] = []"
| "join sep [x] = x"
| "join sep (x # y # ys) = x @ sep @ join sep (y # ys)"

text \<open>
  \<^verbatim>\<open>s.replace(old, new)\<close>: the occurrences of \<open>old\<close> are found from the left, without
  overlap, and each becomes \<open>new\<close>. An empty \<open>old\<close> matches before every character and
  at the end.
\<close>

fun replace_from :: "string \<Rightarrow> string \<Rightarrow> string \<Rightarrow> string" where
  "replace_from old new [] = []"
| "replace_from old new (c # cs) =
     (if old \<noteq> [] \<and> prefix old (c # cs)
      then new @ replace_from old new (drop (length old) (c # cs))
      else c # replace_from old new cs)"

definition replace :: "string \<Rightarrow> string \<Rightarrow> string \<Rightarrow> string" where
  "replace old new s =
     (if old = [] then new @ concat (map (\<lambda>c. c # new) s) else replace_from old new s)"

text \<open>
  \<^verbatim>\<open>s.strip()\<close> removes leading and trailing whitespace; these are the whitespace
  characters below code point 256.
\<close>

definition isspace :: "char \<Rightarrow> bool" where
  "isspace c = (c \<in> set [CHR 0x09, CHR 0x0A, CHR 0x0B, CHR 0x0C, CHR 0x0D, CHR 0x1C,
                          CHR 0x1D, CHR 0x1E, CHR 0x1F, CHR 0x20, CHR 0x85, CHR 0xA0])"

definition strip :: "string \<Rightarrow> string" where
  "strip s = rev (dropWhile isspace (rev (dropWhile isspace s)))"

text \<open>
  A dict keeps its keys in insertion order; assigning to a key it already has keeps the
  key's place.
\<close>

type_synonym dict = "(string \<times> string) list"

fun dict_set :: "string \<Rightarrow> string \<Rightarrow> dict \<Rightarrow> dict" where
  "dict_set k v [] = [(k, v)]"
| "dict_set k v ((k', v') # d) =
     (if k' = k then (k, v) # d else (k', v') # dict_set k v d)"

definition dict_keys :: "dict \<Rightarrow> string list" where
  "dict_keys d = map fst d"

definition dict_values :: "dict \<Rightarrow> string list" where
  "dict_values d = map snd d"

text \<open>\<^verbatim>\<open>all(d.values())\<close>: a string is true when it is not empty.\<close>

definition all_values :: "dict \<Rightarrow> bool" where
  "all_values d = list_all (\<lambda>v. v \<noteq> []) (dict_values d)"

section \<open>The outside world\<close>

text \<open>
  An exception raised by Python code or by a library, with the text \<^verbatim>\<open>str(e)\<close> gives
  (its first words where the text is long).
\<close>

datatype exn = Exn string

fun message_of :: "exn \<Rightarrow> string" where
  "message_of (Exn m) = m"

text \<open>
  An uploaded file, seen through the calls the program makes on it: its declared content
  type; what \<^verbatim>\<open>docx.Document(file)\<close> gives (the texts of \<^verbatim>\<open>doc.paragraphs\<close>, in
  order); what \<^verbatim>\<open>PyPDF2.PdfReader(file)\<close> gives (its pages, each as the result of
  \<^verbatim>\<open>page.extract_text()\<close>); what \<^verbatim>\<open>file.read().decode("utf-8")\<close> gives. Each call
  may raise.
\<close>

record upload =
  type :: string
  Document :: "exn + string list"
  PdfReader :: "exn + (exn + string) list"
  read_decode :: "exn + string"

section \<open>Placeholder extraction and substitution\<close>

text \<open>
  \<^verbatim>\<open>re.findall(r"\{\{(.*?)\}\}", text)\<close>.

  \<open>match_body\<close> is the lazy group \<^verbatim>\<open>(.*?)\<close> followed by \<^verbatim>\<open>\}\}\<close>, tried right after an
  opening \<^verbatim>\<open>{{\<close>: the group grows one character at a time, the closing braces are tried
  first at every length, and \<^verbatim>\<open>.\<close> refuses the line feed. It returns the group and the
  text after the match.
\<close>

fun match_body :: "string \<Rightarrow> (string \<times> string) option" where
  "match_body [] = None"
| "match_body (c # cs) =
     (if prefix ''}}'' (c # cs) then Some ([], drop 2 (c # cs))
      else if c = newline then None
      else (case match_body cs of
              None \<Rightarrow> None
            | Some (n, r) \<Rightarrow> Some (c # n, r)))"

lemma match_body_shorter: "match_body s = Some (n, r) \<Longrightarrow> length r < length s"
proof (induction s arbitrary: n r)
  case Nil
  then show ?case by simp
next
  case (Cons c cs)
  show ?case
  proof (cases "prefix ''}}'' (c # cs)")
    case True
    with Cons.prems show ?thesis by auto
  next
    case False
    with Cons.prems obtain n' where "match_body cs = Some (n', r)"
      by (auto split: if_splits option.splits)
    from Cons.IH [OF this] show ?thesis by simp
  qed
qed

text \<open>
  \<open>findall\<close> scans from the left: a match is tried at every position, the scan resumes
  after a match, and moves one character on where none starts.
\<close>

function findall :: "string \<Rightarrow> string list" where
  "findall [] = []"
| "findall (c # cs) =
     (if prefix ''{{'' (c # cs) then
        (case match_body (drop 2 (c # cs)) of
           Some (n, r) \<Rightarrow> n # findall r
         | None \<Rightarrow> findall cs)
      else findall cs)"
  by pat_completeness auto
termination
proof (relation "measure length")
  fix c cs x2 x y
  assume "match_body (drop 2 (c # cs)) = Some x2" and "(x, y) = x2"
  then have "match_body (drop 2 (c # cs)) = Some (x, y)" by simp
  from match_body_shorter [OF this] show "(y, c # cs) \<in> measure length" by simp
qed auto

definition extract_placeholders :: "string \<Rightarrow> string list" where
  "extract_placeholders text = findall text"

definition read_docx :: "upload \<Rightarrow> exn + string" where
  "read_docx file =
     (case Document file of
        Inl e \<Rightarrow> Inl e
      | Inr paragraphs \<Rightarrow> Inr (join [newline] paragraphs))"

text \<open>The f-string \<^verbatim>\<open>f"{{{{{field}}}}}"\<close>: the field name between two pairs of braces.\<close>

definition marker :: "string \<Rightarrow> string" where
  "marker field = ''{{'' @ field @ ''}}''"

text \<open>
  \<^verbatim>\<open>paragraph.text = text\<close> followed by a read of \<^verbatim>\<open>paragraph.text\<close>. The setter puts
  the text into the XML of the document: it raises \<^verbatim>\<open>ValueError\<close> when the text holds a
  NULL or a control character other than tab, line feed and carriage return, and it
  stores a carriage return as a line break, which reads back as a line feed.
\<close>

definition carriage_return :: char where
  "carriage_return = CHR 0x0D"

definition xml_compatible :: "char \<Rightarrow> bool" where
  "xml_compatible c =
     (c \<notin> set [CHR 0x00, CHR 0x01, CHR 0x02, CHR 0x03, CHR 0x04, CHR 0x05, CHR 0x06,
                CHR 0x07, CHR 0x08, CHR 0x0B, CHR 0x0C, CHR 0x0E, CHR 0x0F, CHR 0x10,
                CHR 0x11, CHR 0x12, CHR 0x13, CHR 0x14, CHR 0x15, CHR 0x16, CHR 0x17,
                CHR 0x18, CHR 0x19, CHR 0x1A, CHR 0x1B, CHR 0x1C, CHR 0x1D, CHR 0x1E,
                CHR 0x1F])"

definition line_breaks :: "string \<Rightarrow> string" where
  "line_breaks t = map (\<lambda>c. if c = carriage_return then newline else c) t"

definition set_text :: "string \<Rightarrow> exn + string" where
  "set_text t =
     (if list_all xml_compatible t then Inr (line_breaks t)
      else Inl (Exn (''All strings must be XML compatible: Unicode or ASCII, '' @
                     ''no NULL bytes or control characters'')))"

text \<open>
  The inner loop of \<^verbatim>\<open>fill_docx_template\<close> on one paragraph, over the items of
  \<^verbatim>\<open>user_inputs\<close> in their order; each pair works on the text the pairs before it left,
  and an exception of the setter ends the loop.
\<close>

fun fill_paragraph :: "dict \<Rightarrow> string \<Rightarrow> exn + string" where
  "fill_paragraph [] text = Inr text"
| "fill_paragraph ((field, val) # user_inputs) text =
     (if contains (marker field) text then
        (case set_text (replace (marker field) val text) of
           Inl e \<Rightarrow> Inl e
         | Inr text' \<Rightarrow> fill_paragraph user_inputs text')
      else fill_paragraph user_inputs text)"

text \<open>The outer loop, over the paragraphs in document order.\<close>

fun fill_paragraphs :: "dict \<Rightarrow> string list \<Rightarrow> exn + string list" where
  "fill_paragraphs user_inputs [] = Inr []"
| "fill_paragraphs user_inputs (paragraph # paragraphs) =
     (case fill_paragraph user_inputs paragraph of
        Inl e \<Rightarrow> Inl e
      | Inr filled \<Rightarrow>
          (case fill_paragraphs user_inputs paragraphs of
             Inl e \<Rightarrow> Inl e
           | Inr rest \<Rightarrow> Inr (filled # rest)))"

text \<open>
  The filled document is given by the texts of its paragraphs, as the uploaded one is.
\<close>

definition fill_docx_template :: "upload \<Rightarrow> dict \<Rightarrow> exn + string list" where
  "fill_docx_template file user_inputs =
     (case Document file of
        Inl e \<Rightarrow> Inl e
      | Inr paragraphs \<Rightarrow> fill_paragraphs user_inputs paragraphs)"

section \<open>File text extraction\<close>

text \<open>The loop \<^verbatim>\<open>for page in pdf_reader.pages: text += page.extract_text()\<close>.\<close>

fun extract_pages :: "(exn + string) list \<Rightarrow> string \<Rightarrow> exn + string" where
  "extract_pages [] text = Inr text"
| "extract_pages (page # pages) text =
     (case page of
        Inl e \<Rightarrow> Inl e
      | Inr t \<Rightarrow> extract_pages pages (text @ t))"

text \<open>The result is \<open>Inr None\<close> where the Python returns \<^verbatim>\<open>None\<close>.\<close>

definition extract_text_from_file :: "upload \<Rightarrow> exn + string option" where
  "extract_text_from_file file =
     (if type file = ''application/pdf'' then
        (case PdfReader file of
           Inl e \<Rightarrow> Inl e
         | Inr pages \<Rightarrow>
             (case extract_pages pages [] of
                Inl e \<Rightarrow> Inl e
              | Inr text \<Rightarrow> Inr (Some text)))
      else if type file =
          ''application/vnd.openxmlformats-officedocument.wordprocessingml.document'' then
        (case Document file of
           Inl e \<Rightarrow> Inl e
         | Inr paragraphs \<Rightarrow> Inr (Some (join [newline] paragraphs)))
      else if type file = ''text/plain'' then
        (case read_decode file of
           Inl e \<Rightarrow> Inl e
         | Inr text \<Rightarrow> Inr (Some text))
      else Inr None)"

section \<open>The page\<close>

text \<open>
  The script runs from top to bottom on every interaction. What it reads is the state of
  the widgets and the two external functions; what it does is a sequence of display
  calls, changes to the session state and to the two log files, and possibly an uncaught
  exception, which ends the run. The model starts at the document filling section; the
  title, the sidebar and the footer before and after show fixed text and read nothing.
  A display call is an \<open>element\<close>; an input widget shows in the model only through the
  value it returns.
\<close>

datatype message = HumanMessage string | AIMessage string | OtherMessage string

datatype widget_key = Auto | Response_area nat

datatype element =
    Subheader string
  | Write string
  | Markdown string
  | Success string
  | Warning string
  | Error string
  | TextArea string string widget_key
  | DownloadButton string "string list" string string

text \<open>
  The stream \<^verbatim>\<open>app.astream(...)\<close> delivers: its \<^verbatim>\<open>(chunk, metadata)\<close> pairs in delivery
  order, and the exception that ends it, if one does.
\<close>

record stream =
  chunks :: "(message \<times> string) list"
  raised :: "exn option"

text \<open>
  The inputs of one run: the uploaded files, the widget values by label, the buttons
  pressed, and the external functions. \<open>choice\<close> is what the user picked in a select box
  or a radio group. \<open>summarizer\<close> takes the text, \<^verbatim>\<open>max_length\<close>, \<^verbatim>\<open>min_length\<close> and
  \<^verbatim>\<open>do_sample\<close>; \<open>astream\<close> takes the messages, the language code and the thread id.
\<close>

record inputs =
  uploaded_form :: "upload option"
  uploaded_file :: "upload option"
  text_input :: "string \<Rightarrow> string"
  text_area :: "string \<Rightarrow> string"
  choice :: "string \<Rightarrow> string"
  button :: "string \<Rightarrow> bool"
  summarizer :: "string \<Rightarrow> nat \<Rightarrow> nat \<Rightarrow> bool \<Rightarrow> exn + dict list"
  astream :: "message list \<Rightarrow> string \<Rightarrow> string \<Rightarrow> stream"

text \<open>
  A select box or radio group returns one of its options, the first one until the user
  picks another.
\<close>

definition selectbox :: "inputs \<Rightarrow> string \<Rightarrow> string list \<Rightarrow> string" where
  "selectbox inp label options =
     (if choice inp label \<in> set options then choice inp label else hd options)"

definition radio :: "inputs \<Rightarrow> string \<Rightarrow> string list \<Rightarrow> string" where
  "radio inp label options =
     (if choice inp label \<in> set options then choice inp label else hd options)"

text \<open>
  What outlives a run: \<^verbatim>\<open>st.session_state.chat_history\<close> (\<open>None\<close> while the key is
  absent) and the files on disk, each a list of rows of cells.
\<close>

record state =
  chat_history :: "message list option"
  files :: "string \<rightharpoonup> string list list"

type_synonym outcome = "element list \<times> state \<times> exn option"

subsection \<open>Document filling\<close>

text \<open>
  The loop \<^verbatim>\<open>for placeholder in placeholders: user_inputs[placeholder] =
  st.text_input(f"{placeholder}:")\<close>. A text input has no key of its own, so its label
  identifies it: the second input with a label the run has used raises
  \<^verbatim>\<open>StreamlitDuplicateElementId\<close>. The labels used so far are those of the keys the
  dict holds.
\<close>

fun collect_inputs :: "inputs \<Rightarrow> string list \<Rightarrow> dict \<Rightarrow> exn + dict" where
  "collect_inputs inp [] user_inputs = Inr user_inputs"
| "collect_inputs inp (placeholder # placeholders) user_inputs =
     (if placeholder \<in> set (dict_keys user_inputs) then
        Inl (Exn (''There are multiple text_input elements '' @
                  ''with the same auto-generated ID''))
      else
        collect_inputs inp placeholders
          (dict_set placeholder (text_input inp (placeholder @ '':'')) user_inputs))"

text \<open>
  The body of \<^verbatim>\<open>if st.button("Generate Filled Document")\<close>. An exception of
  \<^verbatim>\<open>fill_docx_template\<close> is not caught.
\<close>

definition generate_filled_document :: "upload \<Rightarrow> dict \<Rightarrow> state \<Rightarrow> outcome" where
  "generate_filled_document uploaded_form' user_inputs s =
     (if all_values user_inputs then
        (case fill_docx_template uploaded_form' user_inputs of
           Inl e \<Rightarrow> ([], s, Some e)
         | Inr filled_document \<Rightarrow>
             ([Success ''Document filled successfully!'',
               DownloadButton ''Download Completed Document'' filled_document
                 ''completed_form.docx''
                 ''application/vnd.openxmlformats-officedocument.wordprocessingml.document''],
              s, None))
      else
        ([Warning ''Please fill in all fields before generating the document.''], s, None))"

definition shown_before :: "element list \<Rightarrow> outcome \<Rightarrow> outcome" where
  "shown_before shown r = (case r of (els, s, c) \<Rightarrow> (shown @ els, s, c))"

definition template_section :: "inputs \<Rightarrow> state \<Rightarrow> outcome" where
  "template_section inp s =
     shown_before [Subheader ''Document Filling Assistance for Legal Forms'']
     (case uploaded_form inp of
        None \<Rightarrow> ([], s, None)
      | Some form \<Rightarrow>
          (case read_docx form of
             Inl e \<Rightarrow> ([], s, Some e)
           | Inr form_text \<Rightarrow>
               (let placeholders = extract_placeholders form_text in
                if placeholders \<noteq> [] then
                  shown_before [Write ''Placeholders detected in the document:'',
                         Write (join '', '' placeholders),
                         Subheader ''Fill in the Following Fields'']
                    (case collect_inputs inp placeholders [] of
                       Inl e \<Rightarrow> ([], s, Some e)
                     | Inr user_inputs \<Rightarrow>
                         if button inp ''Generate Filled Document''
                         then generate_filled_document form user_inputs s
                         else ([], s, None))
                else
                  ([Warning (''No placeholders found in the document. '' @
                      ''Please upload a document with placeholders like {{Name}}.'')],
                   s, None))))"

subsection \<open>Summarization\<close>

text \<open>
  The body of \<^verbatim>\<open>if st.button("Summarize Document")\<close>. The \<^verbatim>\<open>try\<close> block holds the call
  of the summarizer, the subheader and the display of \<^verbatim>\<open>summary[0]['summary_text']\<close>,
  so a missing index or key after the subheader is caught as well.
\<close>

definition summarize_document :: "inputs \<Rightarrow> string \<Rightarrow> element list" where
  "summarize_document inp document_text =
     (case summarizer inp document_text 150 30 False of
        Inl e \<Rightarrow> [Error (''Error during summarization: '' @ message_of e)]
      | Inr summary \<Rightarrow>
          Subheader ''Document Summary'' #
          (case summary of
             [] \<Rightarrow> [Error (''Error during summarization: '' @ ''list index out of range'')]
           | first # _ \<Rightarrow>
               (case map_of first ''summary_text'' of
                  None \<Rightarrow>
                    [Error (''Error during summarization: '' @
                       [CHR 0x27] @ ''summary_text'' @ [CHR 0x27])]
                | Some summary_text \<Rightarrow> [Write summary_text])))"

text \<open>
  \<^verbatim>\<open>if document_text:\<close> holds for a string that is not empty; \<^verbatim>\<open>None\<close> and the empty
  string both take the \<^verbatim>\<open>else\<close> branch.
\<close>

definition unable_to_extract :: "element list" where
  "unable_to_extract =
     [Error (''Unable to extract text from the uploaded file. '' @
        ''Please try another format (PDF, DOCX, or TXT).'')]"

definition summarization_section :: "inputs \<Rightarrow> state \<Rightarrow> outcome" where
  "summarization_section inp s =
     shown_before [Subheader ''Upload a Legal Document for Summarization'']
     (case uploaded_file inp of
        None \<Rightarrow> ([], s, None)
      | Some file \<Rightarrow>
          (case extract_text_from_file file of
             Inl e \<Rightarrow> ([], s, Some e)
           | Inr None \<Rightarrow> (unable_to_extract, s, None)
           | Inr (Some document_text) \<Rightarrow>
               if document_text \<noteq> [] then
                 ([Write ''File Uploaded Successfully!'',
                   TextArea ''Extracted Document Content'' document_text Auto] @
                  (if button inp ''Summarize Document''
                   then summarize_document inp document_text else []),
                  s, None)
               else (unable_to_extract, s, None)))"

subsection \<open>Chat\<close>

definition language_mapping :: dict where
  "language_mapping =
     [(''English'', ''en''), (''German'', ''de''), (''French'', ''fr''), (''Hindi'', ''hi'')]"

text \<open>
  The loop of \<^verbatim>\<open>display_response\<close>: the texts \<^verbatim>\<open>response_placeholder.text_area\<close> is
  given, one after the other. Each call replaces what the placeholder showed before.
\<close>

fun display_response ::
  "(message \<times> string) list \<Rightarrow> string \<Rightarrow> nat \<Rightarrow> element list" where
  "display_response [] accumulated_response chunk_counter = []"
| "display_response ((chunk, metadata) # rest) accumulated_response chunk_counter =
     (case chunk of
        AIMessage content \<Rightarrow>
          TextArea ''Response'' (accumulated_response @ content)
            (Response_area (chunk_counter + 1)) #
          display_response rest (accumulated_response @ content) (chunk_counter + 1)
      | _ \<Rightarrow> display_response rest accumulated_response chunk_counter)"

text \<open>
  The body of \<^verbatim>\<open>if st.button("Ask")\<close>. The user's message is appended before the stream
  is read; an exception of the stream is not caught.
\<close>

definition ask :: "inputs \<Rightarrow> string \<Rightarrow> string \<Rightarrow> state \<Rightarrow> outcome" where
  "ask inp selected_language user_input s =
     (if strip user_input \<noteq> [] then
        (case chat_history s of
           None \<Rightarrow> ([], s, Some (Exn ''chat_history''))
         | Some history \<Rightarrow>
             (let input_messages = [HumanMessage user_input];
                  s' = s\<lparr>chat_history := Some (history @ [HumanMessage user_input])\<rparr>;
                  response = astream inp input_messages selected_language ''abc1''
              in (display_response (chunks response) [] 0, s', raised response)))
      else ([Warning ''Please enter a valid query.''], s, None))"

text \<open>
  The chat section first creates the history when the session has none, then reads the
  language and the query.
\<close>

definition chat_section :: "inputs \<Rightarrow> state \<Rightarrow> outcome" where
  "chat_section inp s0 =
     shown_before [Subheader ''Chat with the Legal Chatbot'']
     (let history = (case chat_history s0 of None \<Rightarrow> [] | Some h \<Rightarrow> h);
          s = s0\<lparr>chat_history := Some history\<rparr>;
          language = selectbox inp ''Choose the language for responses:''
                       [''English'', ''German'', ''French'', ''Hindi'']
      in case map_of language_mapping language of
           None \<Rightarrow> ([], s, Some (Exn ([CHR 0x27] @ language @ [CHR 0x27])))
         | Some selected_language \<Rightarrow>
             (let user_input = text_input inp ''Ask a legal-related question or give a command:''
              in if button inp ''Ask''
                 then ask inp selected_language user_input s
                 else ([], s, None)))"

text \<open>The rendering loop over the history.\<close>

fun render_message :: "message \<Rightarrow> element list" where
  "render_message (HumanMessage content) = [Markdown (''**You:** '' @ content)]"
| "render_message (AIMessage content) = [Markdown (''**Chatbot:** '' @ content)]"
| "render_message (OtherMessage content) = []"

definition history_section :: "inputs \<Rightarrow> state \<Rightarrow> outcome" where
  "history_section inp s =
     (case chat_history s of
        None \<Rightarrow> ([Subheader ''Chat History''], s, Some (Exn ''chat_history''))
      | Some history \<Rightarrow>
          (Subheader ''Chat History'' # concat (map render_message history), s, None))"

subsection \<open>Form persistence\<close>

definition FEEDBACK_FILE :: string where
  "FEEDBACK_FILE = ''feedback_responses.csv''"

definition QUESTIONNAIRE_FILE :: string where
  "QUESTIONNAIRE_FILE = ''questionnaire_responses.csv''"

text \<open>
  \<^verbatim>\<open>pd.DataFrame([data]).to_csv(path, index=False)\<close> writes a new file: the row of the
  column names, then the row of the values. With \<^verbatim>\<open>mode='a', header=False\<close> it adds the
  row of the values to the end of the file.
\<close>

definition to_csv :: "dict \<Rightarrow> string list list" where
  "to_csv data = [dict_keys data, dict_values data]"

definition to_csv_append :: "dict \<Rightarrow> string list list \<Rightarrow> string list list" where
  "to_csv_append data rows = rows @ [dict_values data]"

definition save_feedback_to_csv :: "dict \<Rightarrow> state \<Rightarrow> state" where
  "save_feedback_to_csv feedback_data s =
     (case files s FEEDBACK_FILE of
        None \<Rightarrow> s\<lparr>files := (files s)(FEEDBACK_FILE \<mapsto> to_csv feedback_data)\<rparr>
      | Some rows \<Rightarrow>
          s\<lparr>files := (files s)(FEEDBACK_FILE \<mapsto> to_csv_append feedback_data rows)\<rparr>)"

definition save_questionnaire_to_csv :: "dict \<Rightarrow> state \<Rightarrow> state" where
  "save_questionnaire_to_csv data s =
     (case files s QUESTIONNAIRE_FILE of
        None \<Rightarrow> s\<lparr>files := (files s)(QUESTIONNAIRE_FILE \<mapsto> to_csv data)\<rparr>
      | Some rows \<Rightarrow>
          s\<lparr>files := (files s)(QUESTIONNAIRE_FILE \<mapsto> to_csv_append data rows)\<rparr>)"

definition questionnaire_responses :: "inputs \<Rightarrow> dict" where
  "questionnaire_responses inp =
     dict_set ''Details''
       (text_area inp ''Please provide a brief description of your legal issue.'')
     (dict_set ''Urgency''
       (radio inp ''How urgent is your legal issue?''
          [''Immediate'', ''Within a Week'', ''Not Urgent''])
     (dict_set ''Issue Type''
       (selectbox inp ''What type of legal issue are you facing?''
          [''Family Law'', ''Criminal Law'', ''Corporate Law'', ''Civil Disputes'', ''Other''])
     (dict_set ''Contact'' (text_input inp ''What is your contact information?'')
     (dict_set ''Name'' (text_input inp ''What is your name?'') []))))"

text \<open>The body of \<^verbatim>\<open>if st.button("Submit Questionnaire")\<close>.\<close>

definition submit_questionnaire :: "dict \<Rightarrow> state \<Rightarrow> outcome" where
  "submit_questionnaire responses s =
     (if all_values responses then
        ([Success (''Thank you for submitting the questionnaire. '' @
            ''We will get back to you shortly!'')],
         save_questionnaire_to_csv responses s, None)
      else ([Warning ''Please fill out all fields before submitting.''], s, None))"

definition questionnaire_section :: "inputs \<Rightarrow> state \<Rightarrow> outcome" where
  "questionnaire_section inp s =
     shown_before
       [Subheader ''Guided Intake Questionnaire for Legal Issues'',
        Write ''Answer the following questions to help us understand your legal issue better.'']
       (if button inp ''Submit Questionnaire''
        then submit_questionnaire (questionnaire_responses inp) s
        else ([], s, None))"

definition feedback :: "inputs \<Rightarrow> dict" where
  "feedback inp =
     dict_set ''Comments'' (text_area inp ''Any additional comments or suggestions?'')
     (dict_set ''Accuracy''
       (selectbox inp ''Was the response accurate?'' [''Yes'', ''No''])
     (dict_set ''Ease of Use''
       (selectbox inp ''Was the chatbot easy to use?'' [''Yes'', ''No''])
     (dict_set ''User Experience''
       (selectbox inp ''How was your overall experience?''
          [''Excellent'', ''Good'', ''Average'', ''Poor''])
       [])))"

text \<open>The body of \<^verbatim>\<open>if st.button("Submit Feedback")\<close>.\<close>

definition submit_feedback :: "dict \<Rightarrow> state \<Rightarrow> outcome" where
  "submit_feedback fb s =
     ([Success ''Thank you for your feedback!'', Write ''**Summary of Feedback:**''] @
      map (\<lambda>(k, v). Write (''**'' @ k @ ''**: '' @ v)) fb,
      save_feedback_to_csv fb s, None)"

definition feedback_section :: "inputs \<Rightarrow> state \<Rightarrow> outcome" where
  "feedback_section inp s =
     (if button inp ''Submit Feedback''
      then submit_feedback (feedback inp) s
      else ([], s, None))"

definition feedback_heading :: "inputs \<Rightarrow> state \<Rightarrow> outcome" where
  "feedback_heading inp s =
     ([Subheader ''Feedback Form'',
       Write (''Please provide your valuable feedback to improve '' @
              ''the Legal Chatbot Assistant.'')],
      s, None)"

subsection \<open>One run of the script\<close>

text \<open>
  The sections run in the order of the script; an uncaught exception ends the run, and
  what was shown and stored before it stays.
\<close>

fun run_sections :: "(state \<Rightarrow> outcome) list \<Rightarrow> state \<Rightarrow> outcome" where
  "run_sections [] s = ([], s, None)"
| "run_sections (section # sections) s =
     (case section s of
        (els, s', Some e) \<Rightarrow> (els, s', Some e)
      | (els, s', None) \<Rightarrow> shown_before els (run_sections sections s'))"

definition page :: "inputs \<Rightarrow> state \<Rightarrow> outcome" where
  "page inp s =
     run_sections
       [template_section inp, summarization_section inp, chat_section inp,
        history_section inp, feedback_heading inp, questionnaire_section inp,
        feedback_section inp] s"

text \<open>A session: one run per interaction, from a state with no history and no file.\<close>

definition fresh :: state where
  "fresh = \<lparr>chat_history = None, files = Map.empty\<rparr>"

fun session :: "inputs list \<Rightarrow> state \<Rightarrow> state" where
  "session [] s = s"
| "session (inp # rest) s = session rest (fst (snd (page inp s)))"

section \<open>Placeholder extraction returns the markers' names\<close>

subsection \<open>Texts built from markers\<close>

text \<open>
  A text seen as plain stretches and \<^verbatim>\<open>{{name}}\<close> markers, in document order.
\<close>

datatype piece = Plain string | Marker string

fun piece_text :: "piece \<Rightarrow> string" where
  "piece_text (Plain s) = s"
| "piece_text (Marker n) = marker n"

definition flat :: "piece list \<Rightarrow> string" where
  "flat ps = concat (map piece_text ps)"

fun marker_names :: "piece list \<Rightarrow> string list" where
  "marker_names [] = []"
| "marker_names (Plain s # ps) = marker_names ps"
| "marker_names (Marker n # ps) = n # marker_names ps"

text \<open>
  A marker is well formed when its name stays on one line and its first \<^verbatim>\<open>}}\<close> is the
  closing one; a plain stretch opens no marker: it has no \<^verbatim>\<open>{{\<close> and does not end in
  \<^verbatim>\<open>{\<close>.
\<close>

fun well_formed :: "piece \<Rightarrow> bool" where
  "well_formed (Plain s) = (\<not> contains ''{{'' (s @ ''{''))"
| "well_formed (Marker n) = (newline \<notin> set n \<and> \<not> contains ''}}'' (n @ ''}''))"

lemma match_body_name:
  "newline \<notin> set n \<Longrightarrow> \<not> contains ''}}'' (n @ ''}'') \<Longrightarrow>
   match_body (n @ ''}}'' @ rest) = Some (n, rest)"
proof (induction n)
  case Nil
  then show ?case by simp
next
  case (Cons c n)
  from Cons.prems have np: "\<not> prefix ''}}'' (c # n @ ''}'')"
    and nc: "\<not> contains ''}}'' (n @ ''}'')" and nl: "c \<noteq> newline" "newline \<notin> set n"
    by auto
  from np have "\<not> prefix ''}}'' (c # n @ ''}}'' @ rest)"
    by (cases n) auto
  with nl nc Cons.IH show ?case by simp
qed

lemma findall_plain:
  "\<not> contains ''{{'' (s @ ''{'') \<Longrightarrow> findall (s @ rest) = findall rest"
proof (induction s)
  case Nil
  then show ?case by simp
next
  case (Cons c s)
  from Cons.prems have np: "\<not> prefix ''{{'' (c # s @ ''{'')"
    and nc: "\<not> contains ''{{'' (s @ ''{'')"
    by auto
  from np have "\<not> prefix ''{{'' (c # s @ rest)"
    by (cases s) auto
  then have "findall (c # s @ rest) = findall (s @ rest)"
    by (subst findall.simps) (simp only: if_False)
  with nc Cons.IH show ?case by simp
qed

lemma findall_marker:
  "newline \<notin> set n \<Longrightarrow> \<not> contains ''}}'' (n @ ''}'') \<Longrightarrow>
   findall (marker n @ rest) = n # findall rest"
  using match_body_name [of n rest] by (simp add: marker_def)

lemma findall_flat:
  "\<forall>p \<in> set ps. well_formed p \<Longrightarrow> findall (flat ps) = marker_names ps"
proof (induction ps)
  case Nil
  then show ?case by (simp add: flat_def)
next
  case (Cons p ps)
  then have ih: "findall (flat ps) = marker_names ps" by simp
  show ?case
  proof (cases p)
    case (Plain s)
    with Cons.prems ih show ?thesis
      by (simp add: flat_def findall_plain [of s, unfolded flat_def])
  next
    case (Marker n)
    with Cons.prems ih show ?thesis
      by (simp add: flat_def findall_marker [of n, unfolded flat_def])
  qed
qed

text \<open>
  Where the scan departs from a naive reading of \<^verbatim>\<open>{{name}}\<close>: a name never crosses a line
  feed, and an unclosed \<^verbatim>\<open>{{\<close> swallows the text up to the next \<^verbatim>\<open>}}\<close> of its line.
\<close>

lemma extract_placeholders_line_feed:
  "extract_placeholders (''{{a'' @ [newline] @ ''b}}'') = []"
  by (simp add: extract_placeholders_def newline_def)

lemma extract_placeholders_unclosed:
  "extract_placeholders ''{{ a {{x}}'' = ['' a {{x'']"
  by (simp add: extract_placeholders_def newline_def)

text \<open>
  A name that is a run of characters without \<^verbatim>\<open>}}\<close> may hold a line feed, and the
  pattern's \<^verbatim>\<open>.\<close> does not match one: of the two markers of this text only the second
  is found.
\<close>

theorem extract_placeholders_counterexample:
  "flat [Marker (''a'' @ [newline] @ ''b''), Plain '' '', Marker ''c'']
     = ''{{a'' @ [newline] @ ''b}} {{c}}''
   \<and> \<not> contains ''}}'' (''a'' @ [newline] @ ''b'')
   \<and> marker_names [Marker (''a'' @ [newline] @ ''b''), Plain '' '', Marker ''c'']
     = [''a'' @ [newline] @ ''b'', ''c'']
   \<and> extract_placeholders (''{{a'' @ [newline] @ ''b}} {{c}}'') = [''c'']"
  by (simp add: flat_def marker_def extract_placeholders_def newline_def)

lemma match_body_one_line: "match_body s = Some (n, r) \<Longrightarrow> newline \<notin> set n"
proof (induction s arbitrary: n r)
  case Nil
  then show ?case by simp
next
  case (Cons c cs)
  show ?case
  proof (cases "prefix ''}}'' (c # cs)")
    case True
    with Cons.prems show ?thesis by auto
  next
    case False
    with Cons.prems obtain n' where "match_body cs = Some (n', r)" and "n = c # n'"
      and "c \<noteq> newline"
      by (auto split: if_splits option.splits)
    with Cons.IH [of n' r] show ?thesis by simp
  qed
qed

lemma findall_one_line: "n \<in> set (findall s) \<Longrightarrow> newline \<notin> set n"
proof (induction s arbitrary: n rule: length_induct)
  case (1 s)
  show ?case
  proof (cases s)
    case Nil
    with "1.prems" show ?thesis by simp
  next
    case (Cons c cs)
    have shorter: "n \<in> set (findall cs) \<Longrightarrow> newline \<notin> set n"
      using "1.IH" Cons by auto
    show ?thesis
    proof (cases "prefix ''{{'' (c # cs)")
      case False
      then have "findall (c # cs) = findall cs"
        by (subst findall.simps) (simp only: if_False)
      with "1.prems" Cons shorter show ?thesis by simp
    next
      case True
      show ?thesis
      proof (cases "match_body (drop 2 (c # cs))")
        case None
        with True have "findall (c # cs) = findall cs"
          by (subst findall.simps) (simp only: if_True option.case)
        with "1.prems" Cons shorter show ?thesis by simp
      next
        case (Some found)
        obtain m r where found: "found = (m, r)" by (cases found)
        with Some have mb: "match_body (drop 2 (c # cs)) = Some (m, r)" by simp
        with True have "findall (c # cs) = m # findall r"
          by (subst findall.simps) (simp only: if_True option.case prod.case)
        with "1.prems" Cons have "n = m \<or> n \<in> set (findall r)"
          by simp
        moreover have "newline \<notin> set m"
          using mb by (rule match_body_one_line)
        moreover have "length r < length s"
          using match_body_shorter [OF mb] Cons by simp
        then have "n \<in> set (findall r) \<Longrightarrow> newline \<notin> set n"
          using "1.IH" by auto
        ultimately show ?thesis by blast
      qed
    qed
  qed
qed

text \<open>
  Claim C1, as amended. A text made of plain stretches and \<open>n\<close> markers whose names stay
  on one line yields exactly the \<open>n\<close> names of its markers, in document order, a repeated
  name as often as its marker occurs. No name that is returned, from any text, holds a
  line feed.
\<close>

theorem extract_placeholders_markers:
  assumes "\<forall>p \<in> set ps. well_formed p"
  shows "extract_placeholders (flat ps) = marker_names ps
    \<and> (\<forall>n \<in> set (extract_placeholders t). newline \<notin> set n)"
  using assms by (simp add: extract_placeholders_def findall_flat findall_one_line)

theorem extract_placeholders_markers_witness:
  "list_all well_formed
     [Plain ''Dear '', Marker ''Name'', Plain '', on '', Marker ''Date'',
      Plain '' for '', Marker ''Name'']
   \<and> extract_placeholders ''Dear {{Name}}, on {{Date}} for {{Name}}''
       = [''Name'', ''Date'', ''Name'']"
proof -
  let ?ps = "[Plain ''Dear '', Marker ''Name'', Plain '', on '', Marker ''Date'',
              Plain '' for '', Marker ''Name'']"
  have wf: "\<forall>p \<in> set ?ps. well_formed p"
    by (simp add: newline_def)
  have "extract_placeholders (flat ?ps) = marker_names ?ps"
    using extract_placeholders_markers [OF wf] by (rule conjunct1)
  then show ?thesis
    using wf by (simp add: flat_def marker_def)
qed

section \<open>Filling a template\<close>

text \<open>
  A paragraph is tidy when braces occur in it only as the delimiters of markers whose
  names have no brace and no line feed. A text is a document text when it is one that
  \<^verbatim>\<open>paragraph.text\<close> can return: every character is one the document format takes,
  and none is a carriage return. \<open>fill_piece\<close> is the substitution read on the pieces:
  a marker whose name is a key becomes the key's value, as the document stores it.
\<close>

definition brace_free :: "string \<Rightarrow> bool" where
  "brace_free s = (CHR ''{'' \<notin> set s \<and> CHR ''}'' \<notin> set s)"



definition docx_text :: "string \<Rightarrow> bool" where
  "docx_text t = list_all (\<lambda>c. xml_compatible c \<and> c \<noteq> carriage_return) t"


lemma brace_free_simps [simp]:
  "brace_free []"
  "brace_free (c # s) = (c \<noteq> CHR ''{'' \<and> c \<noteq> CHR ''}'' \<and> brace_free s)"
  by (auto simp: brace_free_def)




lemma marker_not_Nil [simp]: "marker f \<noteq> []"
  by (simp add: marker_def)

lemma length_marker [simp]: "length (marker f) = length f + 4"
  by (simp add: marker_def)












definition fill_one :: "string \<Rightarrow> string \<Rightarrow> piece \<Rightarrow> piece" where
  "fill_one f v p = (if p = Marker f then Plain v else p)"

lemma fill_one_simps [simp]:
  "fill_one f v (Plain s) = Plain s"
  "fill_one f v (Marker n) = (if n = f then Plain v else Marker n)"
  by (auto simp: fill_one_def)

lemma flat_Cons [simp]: "flat (p # ps) = piece_text p @ flat ps"
  by (simp add: flat_def)

lemma flat_Nil [simp]: "flat [] = []"
  by (simp add: flat_def)







text \<open>What the setter does to a text.\<close>

lemma docx_text_append [simp]: "docx_text (a @ b) = (docx_text a \<and> docx_text b)"
  by (simp add: docx_text_def)

lemma docx_text_Nil [simp]: "docx_text []"
  by (simp add: docx_text_def)

lemma docx_text_marker [simp]: "docx_text (marker n) = docx_text n"
  by (simp add: marker_def) (simp add: docx_text_def xml_compatible_def carriage_return_def)

lemma docx_text_compatible: "docx_text t \<Longrightarrow> list_all xml_compatible t"
  by (simp add: docx_text_def list_all_iff)

lemma docx_text_line_breaks: "docx_text t \<Longrightarrow> line_breaks t = t"
  by (induction t) (simp_all add: docx_text_def line_breaks_def)

lemma line_breaks_docx_text: "list_all xml_compatible v \<Longrightarrow> docx_text (line_breaks v)"
  by (induction v)
     (simp_all add: docx_text_def line_breaks_def xml_compatible_def carriage_return_def
        newline_def)

lemma line_breaks_append [simp]: "line_breaks (a @ b) = line_breaks a @ line_breaks b"
  by (simp add: line_breaks_def)




lemma set_text_docx_text: "docx_text t \<Longrightarrow> set_text t = Inr t"
  by (simp add: set_text_def docx_text_compatible docx_text_line_breaks)












lemma replace_from_chars:
  "set (replace_from old new s) \<subseteq> set s \<union> set new"
proof (induction s rule: length_induct)
  case (1 s)
  show ?case
  proof (cases s)
    case Nil
    then show ?thesis by simp
  next
    case (Cons c cs)
    show ?thesis
    proof (cases "old \<noteq> [] \<and> prefix old (c # cs)")
      case True
      then have "length (drop (length old) (c # cs)) < length s"
        by (cases old) (simp_all add: Cons)
      with 1 have "set (replace_from old new (drop (length old) (c # cs)))
          \<subseteq> set (drop (length old) (c # cs)) \<union> set new"
        by blast
      moreover have "set (drop (length old) (c # cs)) \<subseteq> set (c # cs)"
        by (rule set_drop_subset)
      ultimately show ?thesis
        using True Cons by auto
    next
      case False
      from 1 Cons have "set (replace_from old new cs) \<subseteq> set cs \<union> set new"
        by simp
      with False Cons show ?thesis by auto
    qed
  qed
qed


lemma line_breaks_compatible:
  "list_all xml_compatible t \<Longrightarrow> list_all xml_compatible (line_breaks t)"
  using line_breaks_docx_text [of t] by (simp add: docx_text_compatible)

text \<open>
  A text the document format takes, filled with values it takes, fills without raising,
  and the format takes the result.
\<close>

lemma fill_paragraph_succeeds:
  "\<forall>(f, v) \<in> set user_inputs. list_all xml_compatible v \<Longrightarrow>
   list_all xml_compatible t \<Longrightarrow>
   \<exists>q. fill_paragraph user_inputs t = Inr q \<and> list_all xml_compatible q"
proof (induction user_inputs arbitrary: t)
  case Nil
  then show ?case by simp
next
  case (Cons fv user_inputs)
  obtain f v where fv: "fv = (f, v)" by (cases fv)
  with Cons.prems have xv: "list_all xml_compatible v"
    and rest: "\<forall>(f, v) \<in> set user_inputs. list_all xml_compatible v"
    by auto
  show ?case
  proof (cases "contains (marker f) t")
    case True
    let ?t = "replace (marker f) v t"
    have "set ?t \<subseteq> set t \<union> set v"
      by (simp add: replace_def replace_from_chars)
    with xv Cons.prems(2) have "list_all xml_compatible ?t"
      by (auto simp: list_all_iff)
    then have "set_text ?t = Inr (line_breaks ?t)" "list_all xml_compatible (line_breaks ?t)"
      by (simp_all add: set_text_def line_breaks_compatible)
    with True Cons.IH [OF rest, of "line_breaks ?t"] show ?thesis
      by (simp add: fv)
  next
    case False
    with Cons.IH [OF rest Cons.prems(2)] show ?thesis
      by (simp add: fv)
  qed
qed


lemma fill_paragraphs_succeeds:
  "\<forall>(f, v) \<in> set user_inputs. list_all xml_compatible v \<Longrightarrow>
   list_all (list_all xml_compatible) paragraphs \<Longrightarrow>
   \<exists>filled. fill_paragraphs user_inputs paragraphs = Inr filled"
proof (induction paragraphs)
  case Nil
  show ?case by simp
next
  case (Cons p paragraphs)
  then obtain q where "fill_paragraph user_inputs p = Inr q"
    using fill_paragraph_succeeds [of user_inputs p] by auto
  moreover from Cons obtain qs where "fill_paragraphs user_inputs paragraphs = Inr qs"
    by auto
  ultimately show ?case by simp
qed




section \<open>Extracting the text of a file\<close>

definition PDF :: string where
  "PDF = ''application/pdf''"

definition DOCX :: string where
  "DOCX = ''application/vnd.openxmlformats-officedocument.wordprocessingml.document''"

definition TXT :: string where
  "TXT = ''text/plain''"

text \<open>
  An upload is readable when the library call its declared type selects succeeds: the
  PDF opens and every page gives its text, the DOCX opens, the bytes decode.
\<close>

fun succeeds :: "exn + 'a \<Rightarrow> bool" where
  "succeeds (Inl e) = False"
| "succeeds (Inr x) = True"

definition readable :: "upload \<Rightarrow> bool" where
  "readable file =
     (if type file = PDF then
        (case PdfReader file of Inl e \<Rightarrow> False | Inr pages \<Rightarrow> list_all succeeds pages)
      else if type file = DOCX then succeeds (Document file)
      else if type file = TXT then succeeds (read_decode file)
      else True)"

text \<open>An upload with nothing in it: no library reads it, and a click finds no widget set.\<close>

definition no_file :: upload where
  "no_file = \<lparr>type = [], Document = Inl (Exn ''not a DOCX file''),
     PdfReader = Inl (Exn ''not a PDF file''), read_decode = Inl (Exn ''not UTF-8'')\<rparr>"

definition idle :: inputs where
  "idle = \<lparr>uploaded_form = None, uploaded_file = None,
     text_input = (\<lambda>label. []), text_area = (\<lambda>label. []), choice = (\<lambda>label. []),
     button = (\<lambda>label. False),
     summarizer = (\<lambda>text max_length min_length do_sample. Inl (Exn ''no model'')),
     astream = (\<lambda>messages language thread_id. \<lparr>chunks = [], raised = None\<rparr>)\<rparr>"

lemma extract_pages_all:
  "extract_pages (map Inr pages) acc = Inr (acc @ concat pages)"
  by (induction pages arbitrary: acc) simp_all

lemma extract_pages_succeeds:
  "list_all succeeds pages \<Longrightarrow> \<exists>acc'. extract_pages pages acc = Inr acc'"
proof (induction pages arbitrary: acc)
  case Nil
  then show ?case by simp
next
  case (Cons page pages)
  then show ?case by (cases page) simp_all
qed

lemma join_separates:
  "join sep (x # xs) = x @ concat (map (\<lambda>y. sep @ y) xs)"
  by (induction xs arbitrary: x) simp_all

text \<open>
  The loop over the pages of a PDF appends each page's text to the last with nothing
  between them: only the paragraphs of a DOCX are joined by a line feed.
\<close>

theorem extract_text_from_file_counterexample_pages:
  "extract_text_from_file (no_file\<lparr>type := PDF, PdfReader := Inr [Inr ''one'', Inr ''two'']\<rparr>)
     = Inr (Some ''onetwo'')
   \<and> ''onetwo'' \<noteq> join [newline] [''one'', ''two'']"
  by (simp add: extract_text_from_file_def no_file_def PDF_def)

text \<open>
  Claim C7, as amended. A PDF gives the texts of its pages, one after the other in page
  order, with nothing put between two pages. A DOCX gives the texts of its paragraphs in
  order, every paragraph after the first preceded by one line feed. A text file gives its
  decoded content.
\<close>

theorem extract_text_from_file_concatenates:
  "(type file = PDF \<and> PdfReader file = Inr (map Inr pages)
      \<longrightarrow> extract_text_from_file file = Inr (Some (concat pages)))
   \<and> (type file = DOCX \<and> Document file = Inr paragraphs
      \<longrightarrow> extract_text_from_file file = Inr (Some (join [newline] paragraphs))
        \<and> join [newline] paragraphs
            = (case paragraphs of
                 [] \<Rightarrow> []
               | first # others \<Rightarrow> first @ concat (map (\<lambda>p. newline # p) others)))
   \<and> (type file = TXT \<and> read_decode file = Inr content
      \<longrightarrow> extract_text_from_file file = Inr (Some content))"
  by (cases paragraphs)
     (simp_all add: extract_text_from_file_def PDF_def DOCX_def TXT_def extract_pages_all
        join_separates)

theorem extract_text_from_file_concatenates_witness:
  "extract_text_from_file (no_file\<lparr>type := PDF, PdfReader := Inr [Inr ''one'', Inr ''two'']\<rparr>)
     = Inr (Some ''onetwo'')
   \<and> extract_text_from_file (no_file\<lparr>type := DOCX, Document := Inr [''one'', ''two'', ''three'']\<rparr>)
     = Inr (Some (''one'' @ [newline] @ ''two'' @ [newline] @ ''three''))
   \<and> extract_text_from_file (no_file\<lparr>type := TXT, read_decode := Inr ''one''\<rparr>)
     = Inr (Some ''one'')"
proof -
  let ?pdf = "no_file\<lparr>type := PDF, PdfReader := Inr [Inr ''one'', Inr ''two'']\<rparr>"
  let ?docx = "no_file\<lparr>type := DOCX, Document := Inr [''one'', ''two'', ''three'']\<rparr>"
  let ?plain = "no_file\<lparr>type := TXT, read_decode := Inr ''one''\<rparr>"
  have "type ?pdf = PDF \<and> PdfReader ?pdf = Inr (map Inr [''one'', ''two''])"
    by (simp add: no_file_def)
  with extract_text_from_file_concatenates [of ?pdf "[''one'', ''two'']"]
  have a: "extract_text_from_file ?pdf = Inr (Some (concat [''one'', ''two'']))"
    by blast
  have "type ?docx = DOCX \<and> Document ?docx = Inr [''one'', ''two'', ''three'']"
    by (simp add: no_file_def)
  with extract_text_from_file_concatenates [of ?docx _ "[''one'', ''two'', ''three'']"]
  have b: "extract_text_from_file ?docx = Inr (Some (join [newline] [''one'', ''two'', ''three'']))"
    by blast
  have "type ?plain = TXT \<and> read_decode ?plain = Inr ''one''"
    by (simp add: no_file_def)
  with extract_text_from_file_concatenates [of ?plain _ _ "''one''"]
  have c: "extract_text_from_file ?plain = Inr (Some ''one'')"
    by blast
  from a b c show ?thesis by simp
qed

text \<open>
  The caller tests \<^verbatim>\<open>if document_text:\<close>, which an empty text fails as \<^verbatim>\<open>None\<close> does: an
  empty text file and a file of an unsupported type give the same page.
\<close>

theorem extract_text_from_file_counterexample:
  "extract_text_from_file (no_file\<lparr>type := TXT, read_decode := Inr []\<rparr>) = Inr (Some [])
   \<and> extract_text_from_file (no_file\<lparr>type := ''image/png''\<rparr>) = Inr None
   \<and> fst (summarization_section
        (idle\<lparr>uploaded_file := Some (no_file\<lparr>type := TXT, read_decode := Inr []\<rparr>)\<rparr>) fresh)
     = fst (summarization_section
        (idle\<lparr>uploaded_file := Some (no_file\<lparr>type := ''image/png''\<rparr>)\<rparr>) fresh)"
  by (simp add: extract_text_from_file_def summarization_section_def no_file_def idle_def
        TXT_def shown_before_def)

text \<open>
  Claim C3, as amended. The result is \<^verbatim>\<open>None\<close> exactly for a declared type outside the
  three supported ones; for a readable upload of a supported type it is a text and no
  exception. The caller takes \<^verbatim>\<open>None\<close> and the empty text alike: both show the same
  error and nothing else.
\<close>

theorem extract_text_from_file_unsupported:
  "(extract_text_from_file file = Inr None \<longleftrightarrow> type file \<notin> {PDF, DOCX, TXT})
   \<and> (type file \<in> {PDF, DOCX, TXT} \<and> readable file
      \<longrightarrow> (\<exists>content. extract_text_from_file file = Inr (Some content)))
   \<and> (uploaded_file inp = Some file
      \<and> (extract_text_from_file file = Inr None \<or> extract_text_from_file file = Inr (Some []))
      \<longrightarrow> summarization_section inp s
          = (Subheader ''Upload a Legal Document for Summarization'' # unable_to_extract,
             s, None))"
proof (intro conjI impI)
  show "extract_text_from_file file = Inr None \<longleftrightarrow> type file \<notin> {PDF, DOCX, TXT}"
    by (auto simp: extract_text_from_file_def PDF_def DOCX_def TXT_def split: sum.splits)
next
  assume h: "type file \<in> {PDF, DOCX, TXT} \<and> readable file"
  show "\<exists>content. extract_text_from_file file = Inr (Some content)"
  proof (cases "type file = PDF")
    case True
    with h obtain pages where p: "PdfReader file = Inr pages" "list_all succeeds pages"
      by (auto simp: readable_def split: sum.splits)
    from extract_pages_succeeds [OF p(2), of "[]"] obtain t
      where "extract_pages pages [] = Inr t" by blast
    with True p(1) show ?thesis
      by (simp add: extract_text_from_file_def PDF_def)
  next
    case False
    note not_pdf = this
    show ?thesis
    proof (cases "type file = DOCX")
      case True
      with h not_pdf obtain ps where "Document file = Inr ps"
        by (cases "Document file") (auto simp: readable_def)
      with True not_pdf show ?thesis
        by (simp add: extract_text_from_file_def PDF_def DOCX_def)
    next
      case False
      with h not_pdf have is_txt: "type file = TXT" by simp
      with h not_pdf False obtain t where "read_decode file = Inr t"
        by (cases "read_decode file") (auto simp: readable_def)
      with is_txt not_pdf False show ?thesis
        by (simp add: extract_text_from_file_def PDF_def DOCX_def TXT_def)
    qed
  qed
next
  assume "uploaded_file inp = Some file
    \<and> (extract_text_from_file file = Inr None \<or> extract_text_from_file file = Inr (Some []))"
  then show "summarization_section inp s
      = (Subheader ''Upload a Legal Document for Summarization'' # unable_to_extract, s, None)"
    by (auto simp: summarization_section_def shown_before_def)
qed

theorem extract_text_from_file_unsupported_witness:
  "extract_text_from_file (no_file\<lparr>type := ''image/png''\<rparr>) = Inr None
   \<and> readable (no_file\<lparr>type := TXT, read_decode := Inr []\<rparr>)
   \<and> extract_text_from_file (no_file\<lparr>type := TXT, read_decode := Inr []\<rparr>) = Inr (Some [])
   \<and> summarization_section
        (idle\<lparr>uploaded_file := Some (no_file\<lparr>type := TXT, read_decode := Inr []\<rparr>)\<rparr>)
        fresh
     = (Subheader ''Upload a Legal Document for Summarization'' # unable_to_extract,
        fresh, None)"
proof -
  let ?png = "no_file\<lparr>type := ''image/png''\<rparr>"
  let ?plain = "no_file\<lparr>type := TXT, read_decode := Inr []\<rparr>"
  let ?inp = "idle\<lparr>uploaded_file := Some ?plain\<rparr>"
  note png = extract_text_from_file_unsupported [of ?png idle fresh]
  note empty = extract_text_from_file_unsupported [of ?plain ?inp fresh]
  have "type ?png \<notin> {PDF, DOCX, TXT}"
    by (simp add: no_file_def PDF_def DOCX_def TXT_def)
  with png have a: "extract_text_from_file ?png = Inr None"
    by blast
  have r: "type ?plain \<in> {PDF, DOCX, TXT} \<and> readable ?plain"
    by (simp add: no_file_def readable_def PDF_def DOCX_def TXT_def)
  with empty obtain content where "extract_text_from_file ?plain = Inr (Some content)"
    by blast
  moreover have "extract_text_from_file ?plain = Inr (Some [])"
    by (simp add: extract_text_from_file_def no_file_def TXT_def)
  ultimately have b: "extract_text_from_file ?plain = Inr (Some [])"
    by simp
  have "uploaded_file ?inp = Some ?plain"
    by simp
  with empty b have c: "summarization_section ?inp fresh
      = (Subheader ''Upload a Legal Document for Summarization'' # unable_to_extract,
         fresh, None)"
    by blast
  from a r b c show ?thesis by simp
qed

section \<open>The streamed response\<close>

text \<open>The texts of the assistant's fragments of a stream, in delivery order.\<close>

fun assistant_texts :: "(message \<times> string) list \<Rightarrow> string list" where
  "assistant_texts [] = []"
| "assistant_texts ((AIMessage content, metadata) # rest) = content # assistant_texts rest"
| "assistant_texts ((HumanMessage content, metadata) # rest) = assistant_texts rest"
| "assistant_texts ((OtherMessage content, metadata) # rest) = assistant_texts rest"

text \<open>
  What the placeholder shows after the assistant's fragment number \<open>i + 1\<close>, when the
  buffer held \<open>acc\<close> and \<open>k\<close> fragments were counted before.
\<close>

definition shown_after :: "string \<Rightarrow> nat \<Rightarrow> string list \<Rightarrow> nat \<Rightarrow> element" where
  "shown_after acc k texts i =
     TextArea ''Response'' (acc @ concat (take (Suc i) texts)) (Response_area (k + Suc i))"

lemma display_response_states:
  "display_response stream acc k
     = map (shown_after acc k (assistant_texts stream)) [0..<length (assistant_texts stream)]"
proof (induction stream arbitrary: acc k)
  case Nil
  then show ?case by simp
next
  case (Cons item stream)
  obtain chunk metadata where item: "item = (chunk, metadata)" by (cases item)
  show ?case
  proof (cases chunk)
    case (AIMessage content)
    have "shown_after acc k (content # assistant_texts stream) 0
        = TextArea ''Response'' (acc @ content) (Response_area (k + 1))"
      by (simp add: shown_after_def)
    moreover have "(\<lambda>i. shown_after acc k (content # assistant_texts stream) (Suc i))
        = shown_after (acc @ content) (k + 1) (assistant_texts stream)"
      by (rule ext) (simp add: shown_after_def)
    ultimately show ?thesis
      using Cons.IH [of "acc @ content" "k + 1"]
      by (simp add: item AIMessage map_upt_Suc del: upt_Suc)
  next
    case (HumanMessage content)
    with Cons.IH [of acc k] show ?thesis by (simp add: item)
  next
    case (OtherMessage content)
    with Cons.IH [of acc k] show ?thesis by (simp add: item)
  qed
qed

text \<open>
  Claim C4. The handler shows the buffer once after every fragment of the assistant, in
  delivery order: after the \<open>i\<close>-th such fragment it shows the texts of the first \<open>i\<close> of
  them, joined in that order. A fragment of another kind changes neither the buffer nor
  what is shown. For the stream of the three fragments \<^verbatim>\<open>Hel\<close>, \<^verbatim>\<open>lo \<close>, \<^verbatim>\<open>world\<close> the
  states shown are \<^verbatim>\<open>Hel\<close>, \<^verbatim>\<open>Hello \<close>, \<^verbatim>\<open>Hello world\<close>. The Ask handler shows exactly
  these states for the stream the workflow returns.
\<close>

theorem display_response_in_order:
  "display_response stream [] 0
     = map (\<lambda>i. TextArea ''Response'' (concat (take (Suc i) (assistant_texts stream)))
                  (Response_area (Suc i)))
         [0..<length (assistant_texts stream)]
   \<and> display_response
        [(AIMessage ''Hel'', m1), (AIMessage ''lo '', m2), (AIMessage ''world'', m3)] [] 0
     = [TextArea ''Response'' ''Hel'' (Response_area 1),
        TextArea ''Response'' ''Hello '' (Response_area 2),
        TextArea ''Response'' ''Hello world'' (Response_area 3)]
   \<and> (strip user_input \<noteq> [] \<and> chat_history s = Some history
      \<longrightarrow> fst (ask inp selected_language user_input s)
          = display_response
              (chunks (astream inp [HumanMessage user_input] selected_language ''abc1'')) [] 0)"
proof (intro conjI impI)
  have "shown_after [] 0 (assistant_texts stream)
      = (\<lambda>i. TextArea ''Response'' (concat (take (Suc i) (assistant_texts stream)))
               (Response_area (Suc i)))"
    by (rule ext) (simp add: shown_after_def)
  with display_response_states [of stream "[]" 0]
  show "display_response stream [] 0
      = map (\<lambda>i. TextArea ''Response'' (concat (take (Suc i) (assistant_texts stream)))
                   (Response_area (Suc i)))
          [0..<length (assistant_texts stream)]"
    by simp
next
  show "display_response
        [(AIMessage ''Hel'', m1), (AIMessage ''lo '', m2), (AIMessage ''world'', m3)] [] 0
     = [TextArea ''Response'' ''Hel'' (Response_area 1),
        TextArea ''Response'' ''Hello '' (Response_area 2),
        TextArea ''Response'' ''Hello world'' (Response_area 3)]"
    by simp
next
  assume "strip user_input \<noteq> [] \<and> chat_history s = Some history"
  then show "fst (ask inp selected_language user_input s)
      = display_response
          (chunks (astream inp [HumanMessage user_input] selected_language ''abc1'')) [] 0"
    by (simp add: ask_def Let_def)
qed

theorem display_response_in_order_witness:
  "display_response
     [(AIMessage ''Hel'', ''m''), (OtherMessage ''tool'', ''m''), (AIMessage ''lo '', ''m''),
      (HumanMessage ''hi'', ''m''), (AIMessage ''world'', ''m'')] [] 0
     = [TextArea ''Response'' ''Hel'' (Response_area 1),
        TextArea ''Response'' ''Hello '' (Response_area 2),
        TextArea ''Response'' ''Hello world'' (Response_area 3)]
   \<and> strip ''hello'' \<noteq> []
   \<and> chat_history (fresh\<lparr>chat_history := Some []\<rparr>) = Some []
   \<and> fst (ask
        (idle\<lparr>astream := (\<lambda>messages language thread_id.
            \<lparr>chunks = [(AIMessage ''Hel'', ''m''), (AIMessage ''lo '', ''m''),
                        (AIMessage ''world'', ''m'')],
             raised = None\<rparr>)\<rparr>)
        ''en'' ''hello'' (fresh\<lparr>chat_history := Some []\<rparr>))
     = [TextArea ''Response'' ''Hel'' (Response_area 1),
        TextArea ''Response'' ''Hello '' (Response_area 2),
        TextArea ''Response'' ''Hello world'' (Response_area 3)]"
proof -
  let ?mixed = "[(AIMessage ''Hel'', ''m''), (OtherMessage ''tool'', ''m''),
      (AIMessage ''lo '', ''m''), (HumanMessage ''hi'', ''m''), (AIMessage ''world'', ''m'')]"
  let ?inp = "idle\<lparr>astream := (\<lambda>messages language thread_id.
            \<lparr>chunks = [(AIMessage ''Hel'', ''m''), (AIMessage ''lo '', ''m''),
                        (AIMessage ''world'', ''m'')],
             raised = None\<rparr>)\<rparr>"
  let ?s = "fresh\<lparr>chat_history := Some []\<rparr>"
  note order = display_response_in_order
    [of ?mixed "''m''" "''m''" "''m''" "''hello''" ?s "[]" ?inp "''en''"]
  have texts: "assistant_texts ?mixed = [''Hel'', ''lo '', ''world'']"
    by simp
  have upt: "[0..<3] = [0, Suc 0, Suc (Suc 0)]"
    by (simp add: upt_rec)
  from order have "display_response ?mixed [] 0
      = map (\<lambda>i. TextArea ''Response'' (concat (take (Suc i) (assistant_texts ?mixed)))
                   (Response_area (Suc i)))
          [0..<length (assistant_texts ?mixed)]"
    by (rule conjunct1)
  then have a: "display_response ?mixed [] 0
     = [TextArea ''Response'' ''Hel'' (Response_area 1),
        TextArea ''Response'' ''Hello '' (Response_area 2),
        TextArea ''Response'' ''Hello world'' (Response_area 3)]"
    unfolding texts by (simp add: upt numeral_2_eq_2 numeral_3_eq_3)
  have q: "strip ''hello'' \<noteq> [] \<and> chat_history ?s = Some []"
    by (simp add: strip_def isspace_def)
  with order have "fst (ask ?inp ''en'' ''hello'' ?s)
      = display_response (chunks (astream ?inp [HumanMessage ''hello''] ''en'' ''abc1'')) [] 0"
    by blast
  then have b: "fst (ask ?inp ''en'' ''hello'' ?s)
     = [TextArea ''Response'' ''Hel'' (Response_area 1),
        TextArea ''Response'' ''Hello '' (Response_area 2),
        TextArea ''Response'' ''Hello world'' (Response_area 3)]"
    by (simp add: idle_def)
  from a q b show ?thesis by simp
qed

section \<open>The two logs\<close>

text \<open>
  Claim C5. On a path that does not exist the call creates a file of two rows, the
  record's field names and then its values; on a file that exists it adds one row, the
  record's values, after the rows the file has, and no row of names. Both logs behave so,
  each on its own path, and neither call touches another file or the chat history.
\<close>

theorem save_to_csv_rows:
  "(files s FEEDBACK_FILE = None
      \<longrightarrow> files (save_feedback_to_csv data s) FEEDBACK_FILE
          = Some [dict_keys data, dict_values data])
   \<and> (files s FEEDBACK_FILE = Some rows
      \<longrightarrow> files (save_feedback_to_csv data s) FEEDBACK_FILE
          = Some (rows @ [dict_values data]))
   \<and> (files s FEEDBACK_FILE = None
      \<longrightarrow> files (save_feedback_to_csv data' (save_feedback_to_csv data s)) FEEDBACK_FILE
          = Some [dict_keys data, dict_values data, dict_values data'])
   \<and> (files s QUESTIONNAIRE_FILE = None
      \<longrightarrow> files (save_questionnaire_to_csv data s) QUESTIONNAIRE_FILE
          = Some [dict_keys data, dict_values data])
   \<and> (files s QUESTIONNAIRE_FILE = Some rows
      \<longrightarrow> files (save_questionnaire_to_csv data s) QUESTIONNAIRE_FILE
          = Some (rows @ [dict_values data]))
   \<and> (files s QUESTIONNAIRE_FILE = None
      \<longrightarrow> files (save_questionnaire_to_csv data' (save_questionnaire_to_csv data s))
            QUESTIONNAIRE_FILE
          = Some [dict_keys data, dict_values data, dict_values data'])
   \<and> (path \<noteq> FEEDBACK_FILE
      \<longrightarrow> files (save_feedback_to_csv data s) path = files s path)
   \<and> (path \<noteq> QUESTIONNAIRE_FILE
      \<longrightarrow> files (save_questionnaire_to_csv data s) path = files s path)
   \<and> chat_history (save_feedback_to_csv data s) = chat_history s
   \<and> chat_history (save_questionnaire_to_csv data s) = chat_history s"
  by (simp add: save_feedback_to_csv_def save_questionnaire_to_csv_def to_csv_def
        to_csv_append_def split: option.split)

theorem save_to_csv_rows_witness:
  "files fresh FEEDBACK_FILE = None
   \<and> files (save_feedback_to_csv [(''Accuracy'', ''Yes''), (''Comments'', ''fine'')] fresh)
        FEEDBACK_FILE
     = Some [[''Accuracy'', ''Comments''], [''Yes'', ''fine'']]
   \<and> files (save_feedback_to_csv [(''Accuracy'', ''No''), (''Comments'', '''')]
        (save_feedback_to_csv [(''Accuracy'', ''Yes''), (''Comments'', ''fine'')] fresh))
        FEEDBACK_FILE
     = Some [[''Accuracy'', ''Comments''], [''Yes'', ''fine''], [''No'', '''']]
   \<and> files fresh QUESTIONNAIRE_FILE = None
   \<and> files (save_questionnaire_to_csv [(''Name'', ''Ada'')]
        (save_questionnaire_to_csv [(''Name'', ''Bob'')] fresh)) QUESTIONNAIRE_FILE
     = Some [[''Name''], [''Bob''], [''Ada'']]
   \<and> QUESTIONNAIRE_FILE \<noteq> FEEDBACK_FILE
   \<and> files (save_feedback_to_csv [(''Accuracy'', ''Yes''), (''Comments'', ''fine'')] fresh)
        QUESTIONNAIRE_FILE
     = None"
proof -
  let ?d = "[(''Accuracy'', ''Yes''), (''Comments'', ''fine'')]"
  let ?d' = "[(''Accuracy'', ''No''), (''Comments'', '''')]"
  note fb = save_to_csv_rows [of fresh ?d "[]" ?d' QUESTIONNAIRE_FILE]
  note qn = save_to_csv_rows [of fresh "[(''Name'', ''Bob'')]" "[]" "[(''Name'', ''Ada'')]"
    FEEDBACK_FILE]
  have none: "files fresh FEEDBACK_FILE = None" "files fresh QUESTIONNAIRE_FILE = None"
    by (simp_all add: fresh_def)
  have differ: "QUESTIONNAIRE_FILE \<noteq> FEEDBACK_FILE"
    by (simp add: QUESTIONNAIRE_FILE_def FEEDBACK_FILE_def)
  from fb none have a: "files (save_feedback_to_csv ?d fresh) FEEDBACK_FILE
      = Some [dict_keys ?d, dict_values ?d]"
    by blast
  from fb none have b: "files (save_feedback_to_csv ?d' (save_feedback_to_csv ?d fresh))
      FEEDBACK_FILE = Some [dict_keys ?d, dict_values ?d, dict_values ?d']"
    by blast
  from qn none have c: "files (save_questionnaire_to_csv [(''Name'', ''Ada'')]
        (save_questionnaire_to_csv [(''Name'', ''Bob'')] fresh)) QUESTIONNAIRE_FILE
      = Some [dict_keys [(''Name'', ''Bob'')], dict_values [(''Name'', ''Bob'')],
              dict_values [(''Name'', ''Ada'')]]"
    by blast
  from fb differ have d: "files (save_feedback_to_csv ?d fresh) QUESTIONNAIRE_FILE
      = files fresh QUESTIONNAIRE_FILE"
    by blast
  from a b c d none differ show ?thesis
    by (simp add: dict_keys_def dict_values_def)
qed

section \<open>Generating the filled document\<close>

lemma dict_set_keys: "set (dict_keys (dict_set k v d)) = insert k (set (dict_keys d))"
proof (induction d)
  case Nil
  show ?case by (simp add: dict_keys_def)
next
  case (Cons p d)
  obtain k' v' where p: "p = (k', v')" by (cases p)
  show ?case
  proof (cases "k' = k")
    case True
    then show ?thesis by (simp add: p dict_keys_def)
  next
    case False
    with Cons.IH show ?thesis by (simp add: p dict_keys_def insert_commute)
  qed
qed

lemma dict_set_items: "set (dict_set k v d) \<subseteq> insert (k, v) (set d)"
proof (induction d)
  case Nil
  show ?case by simp
next
  case (Cons p d)
  obtain k' v' where p: "p = (k', v')" by (cases p)
  from Cons.IH show ?case
    by (cases "k' = k") (auto simp: p)
qed

lemma collect_inputs_keys:
  "collect_inputs inp placeholders d = Inr user_inputs \<Longrightarrow>
   set (dict_keys user_inputs) = set (dict_keys d) \<union> set placeholders"
proof (induction placeholders arbitrary: d)
  case Nil
  then show ?case by simp
next
  case (Cons p placeholders)
  then show ?case
    by (auto simp: dict_set_keys split: if_splits)
qed

lemma collect_inputs_items:
  "collect_inputs inp placeholders d = Inr user_inputs \<Longrightarrow>
   \<forall>(k, v) \<in> set d. v = text_input inp (k @ '':'') \<Longrightarrow>
   \<forall>(k, v) \<in> set user_inputs. v = text_input inp (k @ '':'')"
proof (induction placeholders arbitrary: d)
  case Nil
  then show ?case by simp
next
  case (Cons p placeholders)
  from Cons.prems(1) have fresh_label: "p \<notin> set (dict_keys d)"
    and rest: "collect_inputs inp placeholders (dict_set p (text_input inp (p @ '':'')) d)
      = Inr user_inputs"
    by (simp_all split: if_splits)
  have "\<forall>(k, v) \<in> set (dict_set p (text_input inp (p @ '':'')) d).
          v = text_input inp (k @ '':'')"
    using Cons.prems(2) dict_set_items [of p "text_input inp (p @ '':'')" d] by auto
  from Cons.IH [OF rest this] show ?case .
qed

text \<open>The loop ends without raising exactly when no placeholder is repeated.\<close>

lemma collect_inputs_succeeds:
  "(\<exists>user_inputs. collect_inputs inp placeholders d = Inr user_inputs)
     = (distinct placeholders \<and> set placeholders \<inter> set (dict_keys d) = {})"
proof (induction placeholders arbitrary: d)
  case Nil
  show ?case by simp
next
  case (Cons p placeholders)
  show ?case
  proof (cases "p \<in> set (dict_keys d)")
    case True
    then show ?thesis by simp
  next
    case False
    then have "(\<exists>user_inputs. collect_inputs inp (p # placeholders) d = Inr user_inputs)
        = (\<exists>user_inputs. collect_inputs inp placeholders
              (dict_set p (text_input inp (p @ '':'')) d) = Inr user_inputs)"
      by simp
    also have "\<dots> = (distinct placeholders
        \<and> set placeholders \<inter> insert p (set (dict_keys d)) = {})"
      by (simp add: Cons.IH dict_set_keys)
    also have "\<dots> = (distinct (p # placeholders)
        \<and> set (p # placeholders) \<inter> set (dict_keys d) = {})"
      using False by auto
    finally show ?thesis .
  qed
qed

text \<open>
  The dict the page collects holds every detected placeholder with the text typed in its
  field, so \<^verbatim>\<open>all(user_inputs.values())\<close> says that no detected placeholder is left
  empty.
\<close>

lemma all_values_collect_inputs:
  assumes "collect_inputs inp placeholders [] = Inr user_inputs"
  shows "all_values user_inputs
     = (\<forall>p \<in> set placeholders. text_input inp (p @ '':'') \<noteq> [])"
proof -
  have items: "\<forall>(k, v) \<in> set user_inputs. v = text_input inp (k @ '':'')"
    using assms by (rule collect_inputs_items) simp
  have ks: "set (dict_keys user_inputs) = set placeholders"
    using collect_inputs_keys [OF assms] by (simp add: dict_keys_def)
  have "all_values user_inputs = (\<forall>(k, v) \<in> set user_inputs. v \<noteq> [])"
    by (auto simp: all_values_def dict_values_def list_all_iff)
  also have "\<dots> = (\<forall>(k, v) \<in> set user_inputs. text_input inp (k @ '':'') \<noteq> [])"
    using items by fastforce
  also have "\<dots> = (\<forall>k \<in> set (dict_keys user_inputs). text_input inp (k @ '':'') \<noteq> [])"
    by (auto simp: dict_keys_def)
  finally show ?thesis by (simp only: ks)
qed

text \<open>
  Every value is filled in, and still no document is produced: a value with a character
  the document format refuses makes the setter raise, and the handler does not catch it.
\<close>

theorem generate_filled_document_counterexample:
  "all_values [(''Name'', [CHR ''A'', CHR 0x01])]
   \<and> generate_filled_document (no_file\<lparr>Document := Inr [''Dear {{Name}}'']\<rparr>)
        [(''Name'', [CHR ''A'', CHR 0x01])] fresh
     = ([], fresh,
        Some (Exn (''All strings must be XML compatible: Unicode or ASCII, '' @
                   ''no NULL bytes or control characters'')))"
  by (simp add: all_values_def dict_values_def generate_filled_document_def
        fill_docx_template_def no_file_def marker_def replace_def set_text_def
        xml_compatible_def)

text \<open>
  Claim C6, as amended. The inputs are collected without raising exactly when no
  placeholder is detected twice, and then the collected values are all filled in exactly
  when no detected placeholder has an empty value. When some value is empty, the handler
  shows one warning, offers no document and leaves the state as it was, without
  raising. When every value is filled in and neither the form's paragraphs nor the
  values hold a character the document format refuses, it shows the success
  message and offers the filled document for download; the state is again as it was.
  When every value is filled in and the filling raises, the run ends with that
  exception, no document is offered and the state is as it was.
\<close>

theorem generate_filled_document_guard:
  "((\<exists>collected. collect_inputs inp placeholders [] = Inr collected)
      \<longleftrightarrow> distinct placeholders)
   \<and> (collect_inputs inp placeholders [] = Inr collected
      \<longrightarrow> all_values collected
          = (\<forall>p \<in> set placeholders. text_input inp (p @ '':'') \<noteq> []))
   \<and> (\<not> all_values user_inputs
      \<longrightarrow> generate_filled_document form user_inputs s
          = ([Warning ''Please fill in all fields before generating the document.''],
             s, None))
   \<and> (all_values user_inputs \<and> Document form = Inr paragraphs
        \<and> list_all (list_all xml_compatible) paragraphs
        \<and> (\<forall>(f, v) \<in> set user_inputs. list_all xml_compatible v)
      \<longrightarrow> (\<exists>filled_document.
            fill_docx_template form user_inputs = Inr filled_document
            \<and> generate_filled_document form user_inputs s
              = ([Success ''Document filled successfully!'',
                  DownloadButton ''Download Completed Document'' filled_document
                    ''completed_form.docx'' DOCX],
                 s, None)))
   \<and> (all_values user_inputs \<and> fill_docx_template form user_inputs = Inl e
      \<longrightarrow> generate_filled_document form user_inputs s = ([], s, Some e))"
proof (intro conjI impI)
  show "(\<exists>collected. collect_inputs inp placeholders [] = Inr collected)
      \<longleftrightarrow> distinct placeholders"
    by (simp add: collect_inputs_succeeds dict_keys_def)
next
  assume "collect_inputs inp placeholders [] = Inr collected"
  then show "all_values collected
      = (\<forall>p \<in> set placeholders. text_input inp (p @ '':'') \<noteq> [])"
    by (rule all_values_collect_inputs)
next
  assume "\<not> all_values user_inputs"
  then show "generate_filled_document form user_inputs s
      = ([Warning ''Please fill in all fields before generating the document.''], s, None)"
    by (simp add: generate_filled_document_def)
next
  assume h: "all_values user_inputs \<and> Document form = Inr paragraphs
    \<and> list_all (list_all xml_compatible) paragraphs
    \<and> (\<forall>(f, v) \<in> set user_inputs. list_all xml_compatible v)"
  then obtain filled where "fill_paragraphs user_inputs paragraphs = Inr filled"
    using fill_paragraphs_succeeds [of user_inputs paragraphs] by blast
  with h show "\<exists>filled_document.
      fill_docx_template form user_inputs = Inr filled_document
      \<and> generate_filled_document form user_inputs s
        = ([Success ''Document filled successfully!'',
            DownloadButton ''Download Completed Document'' filled_document
              ''completed_form.docx'' DOCX],
           s, None)"
    by (simp add: generate_filled_document_def fill_docx_template_def DOCX_def)
next
  assume "all_values user_inputs \<and> fill_docx_template form user_inputs = Inl e"
  then show "generate_filled_document form user_inputs s = ([], s, Some e)"
    by (simp add: generate_filled_document_def)
qed

theorem generate_filled_document_guard_witness:
  "distinct [''Name'', ''Date'']
   \<and> collect_inputs idle [''Name'', ''Date''] [] = Inr [(''Name'', []), (''Date'', [])]
   \<and> \<not> all_values [(''Name'', []), (''Date'', [])]
   \<and> generate_filled_document (no_file\<lparr>Document := Inr [''Dear {{Name}}, {{Date}}'']\<rparr>)
        [(''Name'', []), (''Date'', [])] fresh
     = ([Warning ''Please fill in all fields before generating the document.''],
        fresh, None)
   \<and> all_values [(''Name'', ''Ada''), (''Date'', ''1815'')]
   \<and> Document (no_file\<lparr>Document := Inr [''Dear {{Name}}, {{Date}}'']\<rparr>)
     = Inr [''Dear {{Name}}, {{Date}}'']
   \<and> list_all (list_all xml_compatible) [''Dear {{Name}}, {{Date}}'']
   \<and> list_all (\<lambda>(f, v). list_all xml_compatible v) [(''Name'', ''Ada''), (''Date'', ''1815'')]
   \<and> generate_filled_document (no_file\<lparr>Document := Inr [''Dear {{Name}}, {{Date}}'']\<rparr>)
        [(''Name'', ''Ada''), (''Date'', ''1815'')] fresh
     = ([Success ''Document filled successfully!'',
         DownloadButton ''Download Completed Document'' [''Dear Ada, 1815'']
           ''completed_form.docx'' DOCX],
        fresh, None)
   \<and> all_values [(''Name'', [CHR ''A'', CHR 0x01])]
   \<and> fill_docx_template (no_file\<lparr>Document := Inr [''Dear {{Name}}, {{Date}}'']\<rparr>)
        [(''Name'', [CHR ''A'', CHR 0x01])]
     = Inl (Exn (''All strings must be XML compatible: Unicode or ASCII, '' @
                 ''no NULL bytes or control characters''))
   \<and> generate_filled_document (no_file\<lparr>Document := Inr [''Dear {{Name}}, {{Date}}'']\<rparr>)
        [(''Name'', [CHR ''A'', CHR 0x01])] fresh
     = ([], fresh,
        Some (Exn (''All strings must be XML compatible: Unicode or ASCII, '' @
                   ''no NULL bytes or control characters'')))"
proof -
  let ?form = "no_file\<lparr>Document := Inr [''Dear {{Name}}, {{Date}}'']\<rparr>"
  let ?empty = "[(''Name'', []), (''Date'', [])]"
  let ?full = "[(''Name'', ''Ada''), (''Date'', ''1815'')]"
  let ?bad = "[(''Name'', [CHR ''A'', CHR 0x01])]"
  let ?refusal = "Exn (''All strings must be XML compatible: Unicode or ASCII, '' @
    ''no NULL bytes or control characters'')"
  note unfilled = generate_filled_document_guard
    [of idle "[''Name'', ''Date'']" ?empty ?empty ?form fresh "[''Dear {{Name}}, {{Date}}'']"
      ?refusal]
  note filled = generate_filled_document_guard
    [of idle "[''Name'', ''Date'']" ?empty ?full ?form fresh "[''Dear {{Name}}, {{Date}}'']"
      ?refusal]
  note refused = generate_filled_document_guard
    [of idle "[''Name'', ''Date'']" ?empty ?bad ?form fresh "[''Dear {{Name}}, {{Date}}'']"
      ?refusal]
  have d: "distinct [''Name'', ''Date'']"
    by simp
  with unfilled obtain collected
    where "collect_inputs idle [''Name'', ''Date''] [] = Inr collected"
    by blast
  then have col: "collect_inputs idle [''Name'', ''Date''] [] = Inr ?empty"
    by (simp add: idle_def dict_keys_def)
  have "\<not> (\<forall>p \<in> set [''Name'', ''Date'']. text_input idle (p @ '':'') \<noteq> [])"
    by (auto simp: idle_def)
  with unfilled col have a: "\<not> all_values ?empty"
    by blast
  with unfilled have b: "generate_filled_document ?form ?empty fresh
      = ([Warning ''Please fill in all fields before generating the document.''],
         fresh, None)"
    by blast
  have c: "all_values ?full" "Document ?form = Inr [''Dear {{Name}}, {{Date}}'']"
    by (simp_all add: all_values_def dict_values_def)
  have dx: "list_all (list_all xml_compatible) [''Dear {{Name}}, {{Date}}'']"
    by (simp add: xml_compatible_def)
  have xv: "\<forall>(f, v) \<in> set ?full. list_all xml_compatible v"
    by (simp add: xml_compatible_def)
  from filled c dx xv obtain filled_document
    where fd: "fill_docx_template ?form ?full = Inr filled_document"
      and gen: "generate_filled_document ?form ?full fresh
        = ([Success ''Document filled successfully!'',
            DownloadButton ''Download Completed Document'' filled_document
              ''completed_form.docx'' DOCX],
           fresh, None)"
    by blast
  have "fill_docx_template ?form ?full = Inr [''Dear Ada, 1815'']"
    by (simp add: fill_docx_template_def marker_def replace_def set_text_def
          xml_compatible_def line_breaks_def carriage_return_def)
  with fd have "filled_document = [''Dear Ada, 1815'']"
    by simp
  with gen have e: "generate_filled_document ?form ?full fresh
      = ([Success ''Document filled successfully!'',
          DownloadButton ''Download Completed Document'' [''Dear Ada, 1815'']
            ''completed_form.docx'' DOCX],
         fresh, None)"
    by simp
  have f: "all_values ?bad"
    by (simp add: all_values_def dict_values_def)
  have g: "fill_docx_template ?form ?bad = Inl ?refusal"
    by (simp add: fill_docx_template_def marker_def replace_def set_text_def
          xml_compatible_def)
  with refused f have h: "generate_filled_document ?form ?bad fresh = ([], fresh, Some ?refusal)"
    by blast
  from d col a b c dx xv e f g h show ?thesis
    by simp
qed

section \<open>Submitting the forms\<close>

lemma selectbox_option:
  "options \<noteq> [] \<Longrightarrow> selectbox inp label options \<in> set options"
  by (cases options) (simp_all add: selectbox_def)

lemma radio_option:
  "options \<noteq> [] \<Longrightarrow> radio inp label options \<in> set options"
  by (cases options) (simp_all add: radio_def)

lemma questionnaire_responses_items:
  "questionnaire_responses inp =
     [(''Name'', text_input inp ''What is your name?''),
      (''Contact'', text_input inp ''What is your contact information?''),
      (''Issue Type'', selectbox inp ''What type of legal issue are you facing?''
          [''Family Law'', ''Criminal Law'', ''Corporate Law'', ''Civil Disputes'', ''Other'']),
      (''Urgency'', radio inp ''How urgent is your legal issue?''
          [''Immediate'', ''Within a Week'', ''Not Urgent'']),
      (''Details'', text_area inp ''Please provide a brief description of your legal issue.'')]"
  by (simp add: questionnaire_responses_def)

lemma feedback_items:
  "feedback inp =
     [(''User Experience'', selectbox inp ''How was your overall experience?''
          [''Excellent'', ''Good'', ''Average'', ''Poor'']),
      (''Ease of Use'', selectbox inp ''Was the chatbot easy to use?'' [''Yes'', ''No'']),
      (''Accuracy'', selectbox inp ''Was the response accurate?'' [''Yes'', ''No'']),
      (''Comments'', text_area inp ''Any additional comments or suggestions?'')]"
  by (simp add: feedback_def)

lemma all_values_questionnaire:
  "all_values (questionnaire_responses inp)
     = (text_input inp ''What is your name?'' \<noteq> []
        \<and> text_input inp ''What is your contact information?'' \<noteq> []
        \<and> text_area inp ''Please provide a brief description of your legal issue.'' \<noteq> [])"
proof -
  have "selectbox inp ''What type of legal issue are you facing?''
      [''Family Law'', ''Criminal Law'', ''Corporate Law'', ''Civil Disputes'', ''Other''] \<noteq> []"
    using selectbox_option [of "[''Family Law'', ''Criminal Law'', ''Corporate Law'',
      ''Civil Disputes'', ''Other'']" inp "''What type of legal issue are you facing?''"]
    by auto
  moreover have "radio inp ''How urgent is your legal issue?''
      [''Immediate'', ''Within a Week'', ''Not Urgent''] \<noteq> []"
    using radio_option [of "[''Immediate'', ''Within a Week'', ''Not Urgent'']" inp
      "''How urgent is your legal issue?''"]
    by auto
  ultimately show ?thesis
    by (simp add: questionnaire_responses_items all_values_def dict_values_def)
qed

lemma all_values_feedback:
  "all_values (feedback inp)
     = (text_area inp ''Any additional comments or suggestions?'' \<noteq> [])"
proof -
  have "selectbox inp ''How was your overall experience?''
      [''Excellent'', ''Good'', ''Average'', ''Poor''] \<noteq> []"
    using selectbox_option [of "[''Excellent'', ''Good'', ''Average'', ''Poor'']" inp
      "''How was your overall experience?''"]
    by auto
  moreover have "selectbox inp ''Was the chatbot easy to use?'' [''Yes'', ''No''] \<noteq> []"
    using selectbox_option [of "[''Yes'', ''No'']" inp "''Was the chatbot easy to use?''"]
    by auto
  moreover have "selectbox inp ''Was the response accurate?'' [''Yes'', ''No''] \<noteq> []"
    using selectbox_option [of "[''Yes'', ''No'']" inp "''Was the response accurate?''"]
    by auto
  ultimately show ?thesis
    by (simp add: feedback_items all_values_def dict_values_def)
qed

text \<open>
  The feedback handler calls the save function with no test before it: a submission
  whose comment is empty is stored, and the page thanks the user.
\<close>

theorem submit_feedback_counterexample:
  "text_area idle ''Any additional comments or suggestions?'' = []
   \<and> fst (feedback_section (idle\<lparr>button := (button idle)(''Submit Feedback'' := True)\<rparr>) fresh)
     = [Success ''Thank you for your feedback!'',
        Write ''**Summary of Feedback:**'',
        Write ''**User Experience**: Excellent'',
        Write ''**Ease of Use**: Yes'',
        Write ''**Accuracy**: Yes'',
        Write ''**Comments**: '']
   \<and> files (fst (snd (feedback_section
        (idle\<lparr>button := (button idle)(''Submit Feedback'' := True)\<rparr>) fresh))) FEEDBACK_FILE
     = Some [[''User Experience'', ''Ease of Use'', ''Accuracy'', ''Comments''],
             [''Excellent'', ''Yes'', ''Yes'', '''']]"
  by (simp add: feedback_section_def submit_feedback_def feedback_items selectbox_def idle_def
        save_feedback_to_csv_def fresh_def to_csv_def dict_keys_def dict_values_def)

text \<open>
  Claim C8, as amended. The questionnaire handler tests that every answer is filled
  before it stores: with an empty answer it shows a warning and stores nothing, and the
  answers that can be empty are the name, the contact and the description. The feedback
  handler applies no test: it stores every submission and shows no warning; its three
  choices are never empty, its comment may be.
\<close>

theorem submit_forms_check:
  "(\<not> all_values responses
      \<longrightarrow> submit_questionnaire responses s
          = ([Warning ''Please fill out all fields before submitting.''], s, None))
   \<and> (all_values responses
      \<longrightarrow> submit_questionnaire responses s
          = ([Success (''Thank you for submitting the questionnaire. '' @
                ''We will get back to you shortly!'')],
             save_questionnaire_to_csv responses s, None))
   \<and> all_values (questionnaire_responses inp)
     = (text_input inp ''What is your name?'' \<noteq> []
        \<and> text_input inp ''What is your contact information?'' \<noteq> []
        \<and> text_area inp ''Please provide a brief description of your legal issue.'' \<noteq> [])
   \<and> submit_feedback fb s
     = ([Success ''Thank you for your feedback!'', Write ''**Summary of Feedback:**''] @
        map (\<lambda>(k, v). Write (''**'' @ k @ ''**: '' @ v)) fb,
        save_feedback_to_csv fb s, None)
   \<and> all_values (feedback inp)
     = (text_area inp ''Any additional comments or suggestions?'' \<noteq> [])"
  by (simp add: submit_questionnaire_def submit_feedback_def all_values_questionnaire
        all_values_feedback)

theorem submit_forms_check_witness:
  "\<not> all_values (questionnaire_responses idle)
   \<and> submit_questionnaire (questionnaire_responses idle) fresh
     = ([Warning ''Please fill out all fields before submitting.''], fresh, None)
   \<and> all_values [(''Name'', ''Ada'')]
   \<and> fst (submit_questionnaire [(''Name'', ''Ada'')] fresh)
     = [Success ''Thank you for submitting the questionnaire. We will get back to you shortly!'']
   \<and> files (fst (snd (submit_questionnaire [(''Name'', ''Ada'')] fresh))) QUESTIONNAIRE_FILE
     = Some [[''Name''], [''Ada'']]
   \<and> \<not> all_values (feedback idle)
   \<and> files (fst (snd (submit_feedback (feedback idle) fresh))) FEEDBACK_FILE
     = Some [[''User Experience'', ''Ease of Use'', ''Accuracy'', ''Comments''],
             [''Excellent'', ''Yes'', ''Yes'', '''']]"
proof -
  note blank = submit_forms_check [of "questionnaire_responses idle" fresh idle "feedback idle"]
  note filled = submit_forms_check [of "[(''Name'', ''Ada'')]" fresh idle "feedback idle"]
  have "\<not> (text_input idle ''What is your name?'' \<noteq> []
        \<and> text_input idle ''What is your contact information?'' \<noteq> []
        \<and> text_area idle ''Please provide a brief description of your legal issue.'' \<noteq> [])"
    by (simp add: idle_def)
  with blank have a: "\<not> all_values (questionnaire_responses idle)"
    by blast
  with blank have b: "submit_questionnaire (questionnaire_responses idle) fresh
      = ([Warning ''Please fill out all fields before submitting.''], fresh, None)"
    by blast
  have c: "all_values [(''Name'', ''Ada'')]"
    by (simp add: all_values_def dict_values_def)
  with filled have d: "submit_questionnaire [(''Name'', ''Ada'')] fresh
      = ([Success (''Thank you for submitting the questionnaire. '' @
            ''We will get back to you shortly!'')],
         save_questionnaire_to_csv [(''Name'', ''Ada'')] fresh, None)"
    by blast
  have "\<not> (text_area idle ''Any additional comments or suggestions?'' \<noteq> [])"
    by (simp add: idle_def)
  with blank have e: "\<not> all_values (feedback idle)"
    by blast
  from blank have f: "submit_feedback (feedback idle) fresh
      = ([Success ''Thank you for your feedback!'', Write ''**Summary of Feedback:**''] @
         map (\<lambda>(k, v). Write (''**'' @ k @ ''**: '' @ v)) (feedback idle),
         save_feedback_to_csv (feedback idle) fresh, None)"
    by blast
  have g: "files (save_feedback_to_csv (feedback idle) fresh) FEEDBACK_FILE
      = Some [[''User Experience'', ''Ease of Use'', ''Accuracy'', ''Comments''],
              [''Excellent'', ''Yes'', ''Yes'', '''']]"
    by (simp add: save_feedback_to_csv_def fresh_def to_csv_def dict_keys_def dict_values_def
          feedback_items selectbox_def idle_def)
  have h: "files (save_questionnaire_to_csv [(''Name'', ''Ada'')] fresh) QUESTIONNAIRE_FILE
      = Some [[''Name''], [''Ada'']]"
    by (simp add: save_questionnaire_to_csv_def fresh_def to_csv_def dict_keys_def
          dict_values_def)
  from a b c d e show ?thesis
    by (simp add: f g h)
qed

section \<open>A failing summarizer\<close>

text \<open>
  Composition of a run: the sections before a point, then the sections after it.
\<close>

lemma run_sections_append:
  "run_sections (before @ rest) s =
     (case run_sections before s of
        (els, s', Some e) \<Rightarrow> (els, s', Some e)
      | (els, s', None) \<Rightarrow> shown_before els (run_sections rest s'))"
proof (induction before arbitrary: s)
  case Nil
  show ?case
    by (cases "run_sections rest s") (simp add: shown_before_def)
next
  case (Cons sec before)
  obtain els s' c where r: "sec s = (els, s', c)"
    by (cases "sec s") auto
  show ?case
  proof (cases c)
    case None
    obtain els2 s2 c2 where r2: "run_sections before s' = (els2, s2, c2)"
      by (cases "run_sections before s'") auto
    obtain els3 s3 c3 where r3: "run_sections rest s2 = (els3, s3, c3)"
      by (cases "run_sections rest s2") auto
    from None r r2 r3 Cons.IH [of s'] show ?thesis
      by (cases c2) (simp_all add: shown_before_def)
  next
    case (Some e)
    with r show ?thesis by simp
  qed
qed

text \<open>No section but the summarization reads the Summarize button.\<close>

lemma collect_inputs_button:
  "collect_inputs (inp\<lparr>button := b\<rparr>) placeholders d = collect_inputs inp placeholders d"
  by (induction placeholders arbitrary: d) simp_all

lemma sections_without_summarize:
  assumes "b ''Generate Filled Document'' = button inp ''Generate Filled Document''"
    and "b ''Ask'' = button inp ''Ask''"
    and "b ''Submit Questionnaire'' = button inp ''Submit Questionnaire''"
    and "b ''Submit Feedback'' = button inp ''Submit Feedback''"
  shows "template_section (inp\<lparr>button := b\<rparr>) = template_section inp"
    and "chat_section (inp\<lparr>button := b\<rparr>) = chat_section inp"
    and "history_section (inp\<lparr>button := b\<rparr>) = history_section inp"
    and "feedback_heading (inp\<lparr>button := b\<rparr>) = feedback_heading inp"
    and "questionnaire_section (inp\<lparr>button := b\<rparr>) = questionnaire_section inp"
    and "feedback_section (inp\<lparr>button := b\<rparr>) = feedback_section inp"
proof -
  show "template_section (inp\<lparr>button := b\<rparr>) = template_section inp"
    using assms(1)
    by (simp add: template_section_def fun_eq_iff collect_inputs_button Let_def
          split: option.split sum.split)
  have "ask (inp\<lparr>button := b\<rparr>) = ask inp"
    by (simp add: ask_def fun_eq_iff Let_def split: option.split)
  then show "chat_section (inp\<lparr>button := b\<rparr>) = chat_section inp"
    using assms(2)
    by (simp add: chat_section_def fun_eq_iff selectbox_def Let_def split: option.split)
  show "history_section (inp\<lparr>button := b\<rparr>) = history_section inp"
    by (simp add: history_section_def fun_eq_iff)
  show "feedback_heading (inp\<lparr>button := b\<rparr>) = feedback_heading inp"
    by (simp add: feedback_heading_def fun_eq_iff)
  have "questionnaire_responses (inp\<lparr>button := b\<rparr>) = questionnaire_responses inp"
    by (simp add: questionnaire_responses_def selectbox_def radio_def)
  then show "questionnaire_section (inp\<lparr>button := b\<rparr>) = questionnaire_section inp"
    using assms(3) by (simp add: questionnaire_section_def fun_eq_iff)
  have "feedback (inp\<lparr>button := b\<rparr>) = feedback inp"
    by (simp add: feedback_def selectbox_def)
  then show "feedback_section (inp\<lparr>button := b\<rparr>) = feedback_section inp"
    using assms(4) by (simp add: feedback_section_def fun_eq_iff)
qed

lemma summarize_document_caught:
  "summarizer inp document_text 150 30 False = Inl e \<Longrightarrow>
   summarize_document inp document_text
     = [Error (''Error during summarization: '' @ message_of e)]"
  by (simp add: summarize_document_def)

lemma summarization_section_shown:
  assumes "uploaded_file inp = Some file"
    and "extract_text_from_file file = Inr (Some document_text)"
    and "document_text \<noteq> []"
  shows "summarization_section inp s =
     ([Subheader ''Upload a Legal Document for Summarization'',
       Write ''File Uploaded Successfully!'',
       TextArea ''Extracted Document Content'' document_text Auto] @
      (if button inp ''Summarize Document'' then summarize_document inp document_text else []),
      s, None)"
  using assms by (simp add: summarization_section_def shown_before_def)

text \<open>
  Claim C9. A failure of the summarizer during a Summarize action is caught: the section
  still shows the upload notice and the extracted text, then one error message that
  carries the failure's text; it raises nothing and leaves the state as it was. The run
  as a whole is the run of the same page without the click, with that one message put
  after the extracted text: every other section shows what it would have shown, and the
  run ends in the same state, with the same uncaught exception if another section
  raises one.
\<close>

theorem summarize_document_failure:
  assumes "uploaded_file inp = Some file"
    and "extract_text_from_file file = Inr (Some document_text)"
    and "document_text \<noteq> []"
    and "button inp ''Summarize Document''"
    and "summarizer inp document_text 150 30 False = Inl e"
  shows "summarization_section inp s =
       ([Subheader ''Upload a Legal Document for Summarization'',
         Write ''File Uploaded Successfully!'',
         TextArea ''Extracted Document Content'' document_text Auto,
         Error (''Error during summarization: '' @ message_of e)],
        s, None)
     \<and> (snd (snd (template_section inp s)) = None \<longrightarrow>
         (\<exists>rest.
            page (inp\<lparr>button := (button inp)(''Summarize Document'' := False)\<rparr>) s =
              (fst (template_section inp s) @
               [Subheader ''Upload a Legal Document for Summarization'',
                Write ''File Uploaded Successfully!'',
                TextArea ''Extracted Document Content'' document_text Auto] @ fst rest,
               snd rest)
          \<and> page inp s =
              (fst (template_section inp s) @
               [Subheader ''Upload a Legal Document for Summarization'',
                Write ''File Uploaded Successfully!'',
                TextArea ''Extracted Document Content'' document_text Auto,
                Error (''Error during summarization: '' @ message_of e)] @ fst rest,
               snd rest)))"
proof (intro conjI impI)
  let ?b = "(button inp)(''Summarize Document'' := False)"
  let ?inp = "inp\<lparr>button := ?b\<rparr>"
  let ?shown = "[Subheader ''Upload a Legal Document for Summarization'',
    Write ''File Uploaded Successfully!'',
    TextArea ''Extracted Document Content'' document_text Auto]"
  let ?error = "Error (''Error during summarization: '' @ message_of e)"
  have clicked: "summarization_section inp t = (?shown @ [?error], t, None)" for t
    using summarization_section_shown [OF assms(1-3), of t] assms(4)
      summarize_document_caught [OF assms(5)]
    by simp
  from clicked [of s]
  show "summarization_section inp s =
       ([Subheader ''Upload a Legal Document for Summarization'',
         Write ''File Uploaded Successfully!'',
         TextArea ''Extracted Document Content'' document_text Auto,
         Error (''Error during summarization: '' @ message_of e)],
        s, None)"
    by simp
  have idle: "summarization_section ?inp t = (?shown, t, None)" for t
    using summarization_section_shown [of ?inp "file" "document_text" t] assms(1-3)
    by simp
  have others: "template_section ?inp = template_section inp"
    "chat_section ?inp = chat_section inp"
    "history_section ?inp = history_section inp"
    "feedback_heading ?inp = feedback_heading inp"
    "questionnaire_section ?inp = questionnaire_section inp"
    "feedback_section ?inp = feedback_section inp"
    by (rule sections_without_summarize; simp)+
  assume "snd (snd (template_section inp s)) = None"
  then obtain els1 s1 where first: "template_section inp s = (els1, s1, None)"
    by (cases "template_section inp s") auto
  let ?rest = "run_sections
    [chat_section inp, history_section inp, feedback_heading inp,
     questionnaire_section inp, feedback_section inp] s1"
  obtain els3 s3 c3 where rest: "?rest = (els3, s3, c3)"
    by (cases ?rest) auto
  let ?others = "[chat_section inp, history_section inp, feedback_heading inp,
     questionnaire_section inp, feedback_section inp]"
  have "run_sections [template_section inp, summarization_section ?inp] s
      = (els1 @ ?shown, s1, None)"
    by (simp add: first idle shown_before_def)
  then have "run_sections ([template_section inp, summarization_section ?inp] @ ?others) s
      = shown_before (els1 @ ?shown) ?rest"
    by (subst run_sections_append) (simp del: run_sections.simps)
  then have "page ?inp s = (els1 @ ?shown @ els3, s3, c3)"
    by (simp add: page_def others rest shown_before_def del: run_sections.simps)
  moreover have "run_sections [template_section inp, summarization_section inp] s
      = (els1 @ ?shown @ [?error], s1, None)"
    by (simp add: first clicked shown_before_def)
  then have "run_sections ([template_section inp, summarization_section inp] @ ?others) s
      = shown_before (els1 @ ?shown @ [?error]) ?rest"
    by (subst run_sections_append) (simp del: run_sections.simps)
  then have "page inp s = (els1 @ (?shown @ [?error]) @ els3, s3, c3)"
    by (simp add: page_def rest shown_before_def del: run_sections.simps)
  ultimately show "\<exists>rest.
      page ?inp s =
        (fst (template_section inp s) @
         [Subheader ''Upload a Legal Document for Summarization'',
          Write ''File Uploaded Successfully!'',
          TextArea ''Extracted Document Content'' document_text Auto] @ fst rest,
         snd rest)
    \<and> page inp s =
        (fst (template_section inp s) @
         [Subheader ''Upload a Legal Document for Summarization'',
          Write ''File Uploaded Successfully!'',
          TextArea ''Extracted Document Content'' document_text Auto,
          Error (''Error during summarization: '' @ message_of e)] @ fst rest,
         snd rest)"
    by (intro exI [of _ "(els3, s3, c3)"]) (simp add: first)
qed

theorem summarize_document_failure_witness:
  "uploaded_file
     (idle\<lparr>uploaded_file := Some (no_file\<lparr>type := TXT, read_decode := Inr ''A lease.''\<rparr>),
           button := (button idle)(''Summarize Document'' := True)\<rparr>)
     = Some (no_file\<lparr>type := TXT, read_decode := Inr ''A lease.''\<rparr>)
   \<and> extract_text_from_file (no_file\<lparr>type := TXT, read_decode := Inr ''A lease.''\<rparr>)
     = Inr (Some ''A lease.'')
   \<and> summarizer idle ''A lease.'' 150 30 False = Inl (Exn ''no model'')
   \<and> summarization_section
        (idle\<lparr>uploaded_file := Some (no_file\<lparr>type := TXT, read_decode := Inr ''A lease.''\<rparr>),
              button := (button idle)(''Summarize Document'' := True)\<rparr>) fresh
     = ([Subheader ''Upload a Legal Document for Summarization'',
         Write ''File Uploaded Successfully!'',
         TextArea ''Extracted Document Content'' ''A lease.'' Auto,
         Error ''Error during summarization: no model''],
        fresh, None)
   \<and> template_section
        (idle\<lparr>uploaded_file := Some (no_file\<lparr>type := TXT, read_decode := Inr ''A lease.''\<rparr>),
              button := (button idle)(''Summarize Document'' := True)\<rparr>) fresh
     = ([Subheader ''Document Filling Assistance for Legal Forms''], fresh, None)
   \<and> snd (page
        (idle\<lparr>uploaded_file := Some (no_file\<lparr>type := TXT, read_decode := Inr ''A lease.''\<rparr>),
              button := (button idle)(''Summarize Document'' := True)\<rparr>) fresh)
     = snd (page
        (idle\<lparr>uploaded_file := Some (no_file\<lparr>type := TXT, read_decode := Inr ''A lease.''\<rparr>),
              button := (button idle)(''Summarize Document'' := True)\<rparr>
           \<lparr>button :=
              (button (idle\<lparr>uploaded_file :=
                          Some (no_file\<lparr>type := TXT, read_decode := Inr ''A lease.''\<rparr>),
                        button := (button idle)(''Summarize Document'' := True)\<rparr>))
              (''Summarize Document'' := False)\<rparr>) fresh)"
proof -
  let ?file = "no_file\<lparr>type := TXT, read_decode := Inr ''A lease.''\<rparr>"
  let ?inp = "idle\<lparr>uploaded_file := Some ?file,
    button := (button idle)(''Summarize Document'' := True)\<rparr>"
  have up: "uploaded_file ?inp = Some ?file"
    by simp
  have ex: "extract_text_from_file ?file = Inr (Some ''A lease.'')"
    by (simp add: extract_text_from_file_def no_file_def TXT_def)
  have ne: "''A lease.'' \<noteq> []"
    by simp
  have bt: "button ?inp ''Summarize Document''"
    by simp
  have fl: "summarizer ?inp ''A lease.'' 150 30 False = Inl (Exn ''no model'')"
    by (simp add: idle_def)
  note failure = summarize_document_failure [OF up ex ne bt fl, of fresh]
  from failure
  have a: "summarization_section ?inp fresh =
       ([Subheader ''Upload a Legal Document for Summarization'',
         Write ''File Uploaded Successfully!'',
         TextArea ''Extracted Document Content'' ''A lease.'' Auto,
         Error (''Error during summarization: '' @ message_of (Exn ''no model''))],
        fresh, None)"
    by (rule conjunct1)
  have tp: "template_section ?inp fresh
      = ([Subheader ''Document Filling Assistance for Legal Forms''], fresh, None)"
    by (simp add: template_section_def idle_def shown_before_def)
  then have "snd (snd (template_section ?inp fresh)) = None"
    by simp
  with failure obtain rest where
    "page (?inp\<lparr>button := (button ?inp)(''Summarize Document'' := False)\<rparr>) fresh
       = (fst (template_section ?inp fresh) @
          [Subheader ''Upload a Legal Document for Summarization'',
           Write ''File Uploaded Successfully!'',
           TextArea ''Extracted Document Content'' ''A lease.'' Auto] @ fst rest,
          snd rest)"
    and "page ?inp fresh
       = (fst (template_section ?inp fresh) @
          [Subheader ''Upload a Legal Document for Summarization'',
           Write ''File Uploaded Successfully!'',
           TextArea ''Extracted Document Content'' ''A lease.'' Auto,
           Error (''Error during summarization: '' @ message_of (Exn ''no model''))] @
          fst rest,
          snd rest)"
    by blast
  then have b: "snd (page ?inp fresh)
      = snd (page (?inp\<lparr>button := (button ?inp)(''Summarize Document'' := False)\<rparr>) fresh)"
    by simp
  from up ex fl a tp show ?thesis
    using b by (simp add: idle_def)
qed

section \<open>The chat history\<close>

fun is_human :: "message \<Rightarrow> bool" where
  "is_human (HumanMessage content) = True"
| "is_human (AIMessage content) = False"
| "is_human (OtherMessage content) = False"

fun content_of :: "message \<Rightarrow> string" where
  "content_of (HumanMessage content) = content"
| "content_of (AIMessage content) = content"
| "content_of (OtherMessage content) = content"

text \<open>The history of a state, empty while the session has none.\<close>

definition history_of :: "state \<Rightarrow> message list" where
  "history_of s = (case chat_history s of None \<Rightarrow> [] | Some history \<Rightarrow> history)"

text \<open>What one run adds to the history: the query, when Ask was pressed on a query that
  is not blank.\<close>

definition asked :: "inputs \<Rightarrow> message list" where
  "asked inp =
     (if button inp ''Ask''
         \<and> strip (text_input inp ''Ask a legal-related question or give a command:'') \<noteq> []
      then [HumanMessage (text_input inp ''Ask a legal-related question or give a command:'')]
      else [])"

lemma language_known:
  "map_of language_mapping
     (selectbox inp ''Choose the language for responses:''
        [''English'', ''German'', ''French'', ''Hindi'']) \<noteq> None"
proof -
  have "selectbox inp ''Choose the language for responses:''
      [''English'', ''German'', ''French'', ''Hindi'']
      \<in> set [''English'', ''German'', ''French'', ''Hindi'']"
    by (rule selectbox_option) simp
  then show ?thesis
    by (auto simp: language_mapping_def)
qed

lemma chat_section_history:
  "chat_history (fst (snd (chat_section inp s))) = Some (history_of s @ asked inp)"
  "files (fst (snd (chat_section inp s))) = files s"
proof -
  obtain code where code: "map_of language_mapping
     (selectbox inp ''Choose the language for responses:''
        [''English'', ''German'', ''French'', ''Hindi'']) = Some code"
    using language_known [of inp] by blast
  show "chat_history (fst (snd (chat_section inp s))) = Some (history_of s @ asked inp)"
    by (simp add: chat_section_def Let_def code shown_before_def ask_def history_of_def
          asked_def split: option.split)
  show "files (fst (snd (chat_section inp s))) = files s"
    by (simp add: chat_section_def Let_def code shown_before_def ask_def
          split: option.split)
qed

lemma unchanged_sections:
  "fst (snd (template_section inp s)) = s"
  "fst (snd (summarization_section inp s)) = s"
  "fst (snd (history_section inp s)) = s"
  "fst (snd (feedback_heading inp s)) = s"
  by (simp_all add: template_section_def summarization_section_def history_section_def
        feedback_heading_def generate_filled_document_def shown_before_def Let_def
        split: option.split sum.split)

lemma form_sections_history:
  "chat_history (fst (snd (questionnaire_section inp s))) = chat_history s"
  "chat_history (fst (snd (feedback_section inp s))) = chat_history s"
  by (simp_all add: questionnaire_section_def feedback_section_def submit_questionnaire_def
        submit_feedback_def save_questionnaire_to_csv_def save_feedback_to_csv_def
        shown_before_def split: option.split)

lemma run_sections_keeps:
  "\<forall>sec \<in> set secs. \<forall>t. chat_history (fst (snd (sec t))) = chat_history t \<Longrightarrow>
   chat_history (fst (snd (run_sections secs s))) = chat_history s"
proof (induction secs arbitrary: s)
  case Nil
  show ?case by simp
next
  case (Cons sec secs)
  obtain els s' c where r: "sec s = (els, s', c)"
    by (cases "sec s") auto
  with Cons.prems have same: "chat_history s' = chat_history s"
    by (metis fst_conv list.set_intros(1) snd_conv)
  show ?case
  proof (cases c)
    case None
    obtain els2 s2 c2 where r2: "run_sections secs s' = (els2, s2, c2)"
      by (cases "run_sections secs s'") auto
    from Cons.IH [of s'] Cons.prems have "chat_history s2 = chat_history s'"
      by (simp add: r2)
    with None r r2 same show ?thesis
      by (simp add: shown_before_def)
  next
    case (Some e)
    with r same show ?thesis by simp
  qed
qed

lemma front_sections:
  "\<exists>els c. run_sections [template_section inp, summarization_section inp] s = (els, s, c)"
proof -
  obtain e1 c1 where t: "template_section inp s = (e1, s, c1)"
    using unchanged_sections(1) [of inp s] by (cases "template_section inp s") auto
  obtain e2 c2 where u: "summarization_section inp s = (e2, s, c2)"
    using unchanged_sections(2) [of inp s] by (cases "summarization_section inp s") auto
  show ?thesis
    by (cases c1; cases c2) (simp_all add: t u shown_before_def)
qed

lemma back_sections:
  "chat_history (fst (snd (run_sections
      [history_section inp, feedback_heading inp, questionnaire_section inp,
       feedback_section inp] s))) = chat_history s"
  by (rule run_sections_keeps) (simp add: unchanged_sections form_sections_history)

lemma page_history:
  "chat_history (fst (snd (page inp s))) = chat_history s
   \<or> chat_history (fst (snd (page inp s))) = Some (history_of s @ asked inp)"
proof -
  let ?later = "[history_section inp, feedback_heading inp, questionnaire_section inp,
    feedback_section inp]"
  obtain els c where front:
    "run_sections [template_section inp, summarization_section inp] s = (els, s, c)"
    using front_sections by blast
  have page: "page inp s =
      run_sections ([template_section inp, summarization_section inp] @
        (chat_section inp # ?later)) s"
    by (simp add: page_def del: run_sections.simps)
  show ?thesis
  proof (cases c)
    case (Some e)
    with front have "page inp s = (els, s, Some e)"
      unfolding page by (subst run_sections_append) simp
    then show ?thesis by simp
  next
    case None
    obtain els2 s2 c2 where chat: "chat_section inp s = (els2, s2, c2)"
      by (cases "chat_section inp s") auto
    with chat_section_history(1) [of inp s]
    have h2: "chat_history s2 = Some (history_of s @ asked inp)"
      by simp
    obtain els3 s3 c3 where rest: "run_sections (chat_section inp # ?later) s = (els3, s3, c3)"
      by (cases "run_sections (chat_section inp # ?later) s") auto
    have "chat_history s3 = chat_history s2"
    proof (cases c2)
      case None
      with chat rest back_sections [of inp s2] show ?thesis
        by (cases "run_sections ?later s2") (auto simp: shown_before_def)
    next
      case (Some e)
      with chat rest show ?thesis by simp
    qed
    moreover from None front rest have "page inp s = (els @ els3, s3, c3)"
      unfolding page by (subst run_sections_append) (simp add: shown_before_def)
    ultimately show ?thesis
      using h2 by simp
  qed
qed

lemma asked_human: "list_all is_human (asked inp)"
  by (simp add: asked_def)

lemma page_human:
  "list_all is_human (history_of s) \<Longrightarrow>
   list_all is_human (history_of (fst (snd (page inp s))))"
  using page_history [of inp s] asked_human [of inp]
  by (auto simp: history_of_def)

lemma session_human:
  "list_all is_human (history_of s) \<Longrightarrow> list_all is_human (history_of (session runs s))"
  by (induction runs arbitrary: s) (simp_all add: page_human)

lemma render_human:
  "list_all is_human history \<Longrightarrow>
   concat (map render_message history)
     = map (\<lambda>m. Markdown (''**You:** '' @ content_of m)) history"
proof (induction history)
  case Nil
  show ?case by simp
next
  case (Cons m history)
  then show ?case by (cases m) simp_all
qed

text \<open>
  Claim C10. Whatever the runs of a session, its history holds only messages of the user.
  One run either leaves the history as it was or puts the user's query at its end, once,
  when Ask was pressed on a query that is not blank. The Ask handler appends that one
  message whatever the stream delivers, and on a blank query it changes nothing and
  shows a warning. The history of a session is therefore rendered with \<^verbatim>\<open>You\<close> lines
  only.
\<close>

theorem chat_history_user_only:
  "list_all is_human (history_of (session runs fresh))
   \<and> (chat_history (fst (snd (page inp s))) = chat_history s
      \<or> chat_history (fst (snd (page inp s))) = Some (history_of s @ asked inp))
   \<and> (strip user_input \<noteq> [] \<and> chat_history s = Some history
      \<longrightarrow> chat_history (fst (snd (ask inp selected_language user_input s)))
          = Some (history @ [HumanMessage user_input]))
   \<and> (strip user_input = []
      \<longrightarrow> ask inp selected_language user_input s
          = ([Warning ''Please enter a valid query.''], s, None))
   \<and> (chat_history s = Some history \<and> list_all is_human history
      \<longrightarrow> history_section inp s
          = (Subheader ''Chat History'' #
             map (\<lambda>m. Markdown (''**You:** '' @ content_of m)) history,
             s, None))"
proof (intro conjI impI)
  have "list_all is_human (history_of fresh)"
    by (simp add: history_of_def fresh_def)
  then show "list_all is_human (history_of (session runs fresh))"
    by (rule session_human)
next
  show "chat_history (fst (snd (page inp s))) = chat_history s
      \<or> chat_history (fst (snd (page inp s))) = Some (history_of s @ asked inp)"
    by (rule page_history)
next
  assume "strip user_input \<noteq> [] \<and> chat_history s = Some history"
  then show "chat_history (fst (snd (ask inp selected_language user_input s)))
      = Some (history @ [HumanMessage user_input])"
    by (simp add: ask_def Let_def)
next
  assume "strip user_input = []"
  then show "ask inp selected_language user_input s
      = ([Warning ''Please enter a valid query.''], s, None)"
    by (simp add: ask_def)
next
  assume "chat_history s = Some history \<and> list_all is_human history"
  then show "history_section inp s
      = (Subheader ''Chat History'' #
         map (\<lambda>m. Markdown (''**You:** '' @ content_of m)) history,
         s, None)"
    by (simp add: history_section_def render_human)
qed

theorem chat_history_user_only_witness:
  "strip ''hello'' \<noteq> []
   \<and> strip ''  '' = []
   \<and> chat_history (fst (snd (ask
        (idle\<lparr>astream := (\<lambda>messages language thread_id.
            \<lparr>chunks = [(AIMessage ''Hel'', ''m''), (AIMessage ''lo'', ''m'')],
             raised = None\<rparr>)\<rparr>)
        ''en'' ''hello'' (fresh\<lparr>chat_history := Some []\<rparr>))))
     = Some [HumanMessage ''hello'']
   \<and> ask idle ''en'' ''  '' (fresh\<lparr>chat_history := Some [HumanMessage ''hello'']\<rparr>)
     = ([Warning ''Please enter a valid query.''],
        fresh\<lparr>chat_history := Some [HumanMessage ''hello'']\<rparr>, None)
   \<and> list_all is_human [HumanMessage ''hello'']
   \<and> history_section idle (fresh\<lparr>chat_history := Some [HumanMessage ''hello'']\<rparr>)
     = ([Subheader ''Chat History'', Markdown ''**You:** hello''],
        fresh\<lparr>chat_history := Some [HumanMessage ''hello'']\<rparr>, None)"
proof -
  let ?inp = "idle\<lparr>astream := (\<lambda>messages language thread_id.
            \<lparr>chunks = [(AIMessage ''Hel'', ''m''), (AIMessage ''lo'', ''m'')],
             raised = None\<rparr>)\<rparr>"
  let ?s0 = "fresh\<lparr>chat_history := Some []\<rparr>"
  let ?s1 = "fresh\<lparr>chat_history := Some [HumanMessage ''hello'']\<rparr>"
  note first = chat_history_user_only [of "[]" ?inp ?s0 "''hello''" "[]" "''en''"]
  note second = chat_history_user_only
    [of "[]" idle ?s1 "''  ''" "[HumanMessage ''hello'']" "''en''"]
  have a: "strip ''hello'' \<noteq> []" and b: "strip ''  '' = []"
    by (simp_all add: strip_def isspace_def)
  have "chat_history ?s0 = Some []"
    by simp
  with first a have c: "chat_history (fst (snd (ask ?inp ''en'' ''hello'' ?s0)))
      = Some ([] @ [HumanMessage ''hello''])"
    by blast
  from second b have d: "ask idle ''en'' ''  '' ?s1
      = ([Warning ''Please enter a valid query.''], ?s1, None)"
    by blast
  have e: "chat_history ?s1 = Some [HumanMessage ''hello'']
      \<and> list_all is_human [HumanMessage ''hello'']"
    by simp
  with second have f: "history_section idle ?s1
      = (Subheader ''Chat History'' #
         map (\<lambda>m. Markdown (''**You:** '' @ content_of m)) [HumanMessage ''hello''],
         ?s1, None)"
    by blast
  from a b c d e f show ?thesis
    by simp
qed

end
